theory Spec2Isabelle
  imports Complex_Main "HOL-Library.Word" "HOL-Library.AList"
begin

section \<open>Python values, bytes and exceptions\<close>

text \<open>
  The interchange layer of OpenLautrec lives in the methods \<^verbatim>\<open>save_as_olc\<close>,
  \<^verbatim>\<open>load_olc\<close>, \<^verbatim>\<open>save_as_docx\<close>, \<^verbatim>\<open>add_hyperlink\<close>, \<^verbatim>\<open>load_docx\<close>,
  \<^verbatim>\<open>save_as_odt\<close>, \<^verbatim>\<open>load_odt\<close>, \<^verbatim>\<open>save_as_html\<close> and \<^verbatim>\<open>save_to_file\<close> of the
  main window class in \<^verbatim>\<open>src/main.py\<close>. They are embedded here as functions on an
  explicit application state. What the methods call in Qt, in the Python standard
  library, in python-docx and in odfpy is not part of the repository: those functions
  are parameters (the records \<open>qt\<close>, \<open>pylib\<close>, \<open>docxlib\<close>, \<open>odflib\<close>), and every
  theorem holds for all of them unless it names a hypothesis about them.

  A Python \<^verbatim>\<open>str\<close> is a \<open>string\<close>, one \<open>char\<close> per character; a \<^verbatim>\<open>bytes\<close> object is a
  list of 8-bit words.
\<close>

type_synonym byte = "8 word"
type_synonym bytes = "byte list"

text \<open>
  Exceptions. \<^verbatim>\<open>load_olc\<close> has one handler for \<^verbatim>\<open>ValueError\<close> and one for every
  other \<^verbatim>\<open>Exception\<close>, so the model keeps that distinction and the message of the two
  \<^verbatim>\<open>ValueError\<close>s the method raises itself: the magic number mismatch (with the bytes
  found) and the short payload read (bytes read, bytes declared). \<open>LibMsg\<close> is the
  message of a \<^verbatim>\<open>ValueError\<close> raised by a library; any other exception is its class
  name.
\<close>

datatype err_msg = BadMagic bytes | ShortRead nat nat | LibMsg string

datatype py_exn = ValueError err_msg | Exception string

text \<open>The values \<^verbatim>\<open>pickle.loads\<close> can return, as far as \<^verbatim>\<open>load_olc\<close> looks at them.\<close>

datatype pyval =
    PNone
  | PInt int
  | PStr string
  | PBytes bytes
  | PList "pyval list"
  | PDict "(pyval \<times> pyval) list"

text \<open>\<^verbatim>\<open>d.get(key, default)\<close>: only a dict has the method here.\<close>

fun py_get :: "pyval \<Rightarrow> string \<Rightarrow> pyval \<Rightarrow> py_exn + pyval" where
  "py_get (PDict kvs) k dflt = Inr (case map_of kvs (PStr k) of Some v \<Rightarrow> v | None \<Rightarrow> dflt)"
| "py_get _ k dflt = Inl (Exception ''AttributeError'')"

text \<open>\<^verbatim>\<open>d.items()\<close>.\<close>

fun py_items :: "pyval \<Rightarrow> py_exn + (pyval \<times> pyval) list" where
  "py_items (PDict kvs) = Inr kvs"
| "py_items _ = Inl (Exception ''AttributeError'')"

text \<open>\<^verbatim>\<open>x[:10]\<close>: defined on sequences, a \<^verbatim>\<open>TypeError\<close> on \<^verbatim>\<open>None\<close>, an int or a dict.\<close>

fun py_slice10 :: "pyval \<Rightarrow> py_exn + pyval" where
  "py_slice10 (PStr s) = Inr (PStr (take 10 s))"
| "py_slice10 (PBytes b) = Inr (PBytes (take 10 b))"
| "py_slice10 (PList xs) = Inr (PList (take 10 xs))"
| "py_slice10 _ = Inl (Exception ''TypeError'')"

subsection \<open>The struct module\<close>

text \<open>
  \<^verbatim>\<open>struct.pack('Q', n)\<close> and \<^verbatim>\<open>struct.pack('f', x)\<close> use the byte order of the machine,
  which is a parameter. A float is kept as its 32-bit IEEE-754 pattern; \<open>f32_value\<close>
  gives the number it denotes, exactly, as Python does when it widens the single to a
  double.
\<close>

datatype byteorder = LittleEndian | BigEndian

fun le_bytes :: "nat \<Rightarrow> nat \<Rightarrow> bytes" where
  "le_bytes 0 n = []"
| "le_bytes (Suc k) n = of_nat (n mod 256) # le_bytes k (n div 256)"

fun le_nat :: "bytes \<Rightarrow> nat" where
  "le_nat [] = 0"
| "le_nat (b # bs) = unat b + 256 * le_nat bs"

definition native :: "byteorder \<Rightarrow> bytes \<Rightarrow> bytes" where
  "native bo bs = (case bo of LittleEndian \<Rightarrow> bs | BigEndian \<Rightarrow> rev bs)"

definition pack_Q :: "byteorder \<Rightarrow> nat \<Rightarrow> bytes option" where
  "pack_Q bo n = (if n < 2 ^ 64 then Some (native bo (le_bytes 8 n)) else None)"

definition unpack_Q :: "byteorder \<Rightarrow> bytes \<Rightarrow> nat option" where
  "unpack_Q bo bs = (if length bs = 8 then Some (le_nat (native bo bs)) else None)"

definition pack_f :: "byteorder \<Rightarrow> nat \<Rightarrow> bytes" where
  "pack_f bo bits = native bo (le_bytes 4 bits)"

definition unpack_f :: "byteorder \<Rightarrow> bytes \<Rightarrow> nat option" where
  "unpack_f bo bs = (if length bs = 4 then Some (le_nat (native bo bs)) else None)"

datatype pyfloat = NaN | PosInf | NegInf | Finite real

definition f32_value :: "nat \<Rightarrow> pyfloat" where
  "f32_value bits =
     (let s = bits div 2 ^ 31; e = (bits div 2 ^ 23) mod 256; m = bits mod 2 ^ 23 in
      if e = 255 then (if m \<noteq> 0 then NaN else if s = 0 then PosInf else NegInf)
      else
        let mag = (if e = 0 then real m / 2 ^ 149
                   else if 150 \<le> e then real (2 ^ 23 + m) * 2 ^ (e - 150)
                   else real (2 ^ 23 + m) / 2 ^ (150 - e))
        in Finite (if s = 0 then mag else - mag))"

text \<open>\<^verbatim>\<open>x > r\<close> on floats: false on NaN.\<close>

fun float_gt :: "pyfloat \<Rightarrow> real \<Rightarrow> bool" where
  "float_gt NaN r = False"
| "float_gt PosInf r = True"
| "float_gt NegInf r = False"
| "float_gt (Finite x) r = (r < x)"

text \<open>The pattern of the single-precision 1.0 that \<^verbatim>\<open>save_as_olc\<close> writes.\<close>

definition f32_one :: nat where
  "f32_one = 1065353216"

text \<open>The magic literal \<^verbatim>\<open>b'OLC!'\<close>.\<close>

definition OLC_MAGIC :: bytes where
  "OLC_MAGIC = [0x4F, 0x4C, 0x43, 0x21]"

section \<open>The document held by the editor\<close>

text \<open>
  The document is the \<^verbatim>\<open>QTextDocument\<close> of the text edit, as the exporters walk it:
  blocks, each with its alignment and its fragments; a fragment has a text and a
  character format, read through the accessors the source calls
  (\<^verbatim>\<open>isImageFormat\<close>, \<^verbatim>\<open>toImageFormat().name/width/height\<close>, \<^verbatim>\<open>isAnchor\<close>,
  \<^verbatim>\<open>anchorHref\<close>, \<^verbatim>\<open>font().family/pointSize/bold/italic/underline\<close>,
  \<^verbatim>\<open>foreground().color()\<close>). Image resources are the map that \<^verbatim>\<open>addResource\<close> fills.
  Every fragment the block iterator gives is taken to be valid
  (\<^verbatim>\<open>fragment.isValid()\<close>). Widths and heights are real numbers: the floats of the
  source, without their rounding.
\<close>

type_synonym rgb = "byte \<times> byte \<times> byte"

record char_format =
  isImageFormat :: bool
  image_name :: string
  image_width :: real
  image_height :: real
  isAnchor :: bool
  anchorHref :: string
  font_family :: string
  font_pointSize :: int
  font_bold :: bool
  font_italic :: bool
  font_underline :: bool
  foreground :: rgb

record fragment =
  charFormat :: char_format
  frag_text :: string

datatype align = AlignLeft | AlignCenter | AlignRight | AlignJustify | AlignOther

record block =
  alignment :: align
  fragments :: "fragment list"

text \<open>
  A \<^verbatim>\<open>QImage\<close> is null or holds pixels; \<open>Image b\<close> stands for the image whose PNG
  serialisation (\<^verbatim>\<open>image.save(buffer, "PNG")\<close>) is \<open>b\<close>.
\<close>

datatype qimage = NullImage | Image bytes

record document =
  blocks :: "block list"
  resources :: "string \<rightharpoonup> qimage"

text \<open>
  A \<^verbatim>\<open>QTextCharFormat()\<close> built by an importer: only what the importer sets. A
  colour is the red, green and blue of the \<^verbatim>\<open>QColor\<close> given to \<^verbatim>\<open>setForeground\<close> or
  \<^verbatim>\<open>setBackground\<close>.
\<close>

record fmt =
  fmt_family :: "string option"
  fmt_pointSize :: "real option"
  fmt_bold :: bool
  fmt_italic :: bool
  fmt_underline :: bool
  fmt_foreground :: "(nat \<times> nat \<times> nat) option"
  fmt_background :: "(nat \<times> nat \<times> nat) option"

definition QTextCharFormat :: fmt where
  "QTextCharFormat = \<lparr>fmt_family = None, fmt_pointSize = None, fmt_bold = False,
     fmt_italic = False, fmt_underline = False, fmt_foreground = None,
     fmt_background = None\<rparr>"

text \<open>
  Qt itself: the HTML codec of the document, plain text, the cursor operations of the
  importers (always at the end of the document), resource loading and colour parsing.
\<close>

record qt =
  toHtml :: "document \<Rightarrow> string"
  setHtml :: "document \<Rightarrow> string \<Rightarrow> document"
  toPlainText :: "document \<Rightarrow> string"
  clear :: "document \<Rightarrow> document"
  insertText :: "document \<Rightarrow> string \<Rightarrow> fmt option \<Rightarrow> document"
  setBlockFormat :: "document \<Rightarrow> align \<Rightarrow> document"
  loadResource :: "string \<Rightarrow> qimage option"
  loadFromData :: "bytes \<Rightarrow> qimage"
  QColor :: "string \<Rightarrow> rgb option"

text \<open>
  \<^verbatim>\<open>doc.resource(QTextDocument.ImageResource, QUrl(name))\<close>: the stored resource, or
  what the document loads for the name; \<^verbatim>\<open>None\<close> when there is neither.
\<close>

definition resource :: "qt \<Rightarrow> document \<Rightarrow> string \<Rightarrow> qimage option" where
  "resource q d name =
     (case resources d name of Some i \<Rightarrow> Some i | None \<Rightarrow> loadResource q name)"

definition addResource :: "document \<Rightarrow> string \<Rightarrow> qimage \<Rightarrow> document" where
  "addResource d name i = d\<lparr>resources := (resources d)(name \<mapsto> i)\<rparr>"

text \<open>
  The Python side: byte order, the clock, gzip, pickle, UTF-8, which paths can be
  opened for writing, \<^verbatim>\<open>id()\<close> of the fragment object met at a block and fragment
  index, and \<^verbatim>\<open>float()\<close> on a string. \<open>read_refused n\<close> is the exception that
  \<^verbatim>\<open>f.read(n)\<close> raises instead of reading, if any: the size is a C \<^verbatim>\<open>ssize_t\<close>, so a
  64-bit CPython raises \<^verbatim>\<open>OverflowError\<close> from \<open>2 ^ 63 - 1\<close> on, and \<^verbatim>\<open>MemoryError\<close> when
  it cannot allocate the buffer.
\<close>

record pylib =
  byteorder :: byteorder
  now_isoformat :: "nat \<Rightarrow> string"
  gzip_compress :: "bytes \<Rightarrow> bytes"
  gzip_decompress :: "bytes \<Rightarrow> py_exn + bytes"
  pickle_dumps :: "pyval \<Rightarrow> bytes"
  pickle_loads :: "bytes \<Rightarrow> py_exn + pyval"
  utf8_encode :: "string \<Rightarrow> py_exn + bytes"
  utf8_decode :: "bytes \<Rightarrow> py_exn + string"
  writable :: "string \<Rightarrow> bool"
  read_refused :: "nat \<Rightarrow> string option"
  object_id :: "nat \<Rightarrow> nat \<Rightarrow> nat"
  py_float :: "string \<Rightarrow> real option"

section \<open>The application state\<close>

datatype site =
    FichierInvalide | LoadOlc | SaveOlc | LoadDocx | SaveDocx | LoadOdt | SaveOdt
  | SaveHtml | SaveToFile

datatype wmsg = VersionRecente pyfloat | ModuleManquant string

datatype dialog = Warning wmsg | Critical site py_exn

datatype event = OpenRead string | OpenWrite string | ReadBytes nat | Dialog dialog

datatype status_msg =
    NoStatus
  | OlcSaved string nat
  | OlcLoaded nat pyval pyval nat
  | DocxSaved string | DocxOpened string
  | OdtSaved string | OdtOpened string
  | HtmlSaved string
  | FileSaved string

text \<open>
  The window: its document, the fields \<^verbatim>\<open>save_to_file\<close> sets, the status bar, the file
  system, and the log of what the user and the file system saw, in order: message
  boxes, files opened, and the size asked of each \<^verbatim>\<open>f.read\<close>.
\<close>

record app =
  doc :: document
  current_file :: "string option"
  is_modified :: bool
  window_title :: string
  status :: status_msg
  fs :: "string \<rightharpoonup> bytes"
  log :: "event list"

definition emit :: "event list \<Rightarrow> app \<Rightarrow> app" where
  "emit evs a = a\<lparr>log := log a @ evs\<rparr>"

section \<open>The container codec\<close>

subsection \<open>save_as_olc\<close>

text \<open>
  \<^verbatim>\<open>len(text.split())\<close>: the number of maximal runs of characters that are not white
  space (the white space of \<^verbatim>\<open>str.isspace\<close> among the first 256 code points).
\<close>

definition isspace :: "char \<Rightarrow> bool" where
  "isspace c = (let n = (of_char c :: nat) in
     (9 \<le> n \<and> n \<le> 13) \<or> (28 \<le> n \<and> n \<le> 32) \<or> n = 133 \<or> n = 160)"

fun split_count :: "bool \<Rightarrow> string \<Rightarrow> nat" where
  "split_count in_word [] = 0"
| "split_count in_word (c # cs) =
     (if isspace c then split_count False cs
      else (if in_word then 0 else 1) + split_count True cs)"

text \<open>
  The loop over blocks and fragments that fills the \<^verbatim>\<open>images\<close> dict: an image fragment
  contributes its name and PNG bytes when the document resolves the name to an image
  that is not null (\<^verbatim>\<open>if image and not image.isNull()\<close>). \<^verbatim>\<open>images[name] = data\<close> on a
  dict is \<open>AList.update\<close>.
\<close>

definition collect_image ::
  "qt \<Rightarrow> document \<Rightarrow> (string \<times> bytes) list \<Rightarrow> fragment \<Rightarrow> (string \<times> bytes) list" where
  "collect_image q d images fr =
     (let char_format = charFormat fr in
      if isImageFormat char_format then
        (case resource q d (image_name char_format) of
           Some (Image png) \<Rightarrow> AList.update (image_name char_format) png images
         | _ \<Rightarrow> images)
      else images)"

definition collect_images :: "qt \<Rightarrow> document \<Rightarrow> (string \<times> bytes) list" where
  "collect_images q d =
     foldl (\<lambda>images b. foldl (collect_image q d) images (fragments b)) [] (blocks d)"

text \<open>The dict \<^verbatim>\<open>olc_data\<close> that is pickled.\<close>

definition olc_data :: "qt \<Rightarrow> pylib \<Rightarrow> document \<Rightarrow> pyval" where
  "olc_data q p d =
     (let plain = toPlainText q d in
      PDict [
        (PStr ''version'', PStr ''1.3.9''),
        (PStr ''application'', PStr ''OpenLautrec''),
        (PStr ''created'', PStr (now_isoformat p 0)),
        (PStr ''modified'', PStr (now_isoformat p 1)),
        (PStr ''html_content'', PStr (toHtml q d)),
        (PStr ''plain_text'', PStr plain),
        (PStr ''images'', PDict (map (\<lambda>(k, v). (PStr k, PBytes v)) (collect_images q d))),
        (PStr ''metadata'', PDict [
           (PStr ''word_count'', PInt (int (split_count False plain))),
           (PStr ''char_count'', PInt (int (length plain)))])])"

text \<open>
  The body of the \<^verbatim>\<open>try\<close>: the exception raised, if any, and the state reached. The
  file is opened with \<^verbatim>\<open>'wb'\<close>, so when \<^verbatim>\<open>struct.pack('Q', ...)\<close> raises, the magic and
  the version are already written.
\<close>

definition save_as_olc_body :: "qt \<Rightarrow> pylib \<Rightarrow> string \<Rightarrow> app \<Rightarrow> py_exn option \<times> app" where
  "save_as_olc_body q p filename a =
     (let compressed_data = gzip_compress p (pickle_dumps p (olc_data q p (doc a))) in
      if \<not> writable p filename then (Some (Exception ''OSError''), a)
      else
        let a1 = emit [OpenWrite filename] a;
            header = OLC_MAGIC @ pack_f (byteorder p) f32_one
        in case pack_Q (byteorder p) (length compressed_data) of
             None \<Rightarrow> (Some (Exception ''struct.error''), a1\<lparr>fs := (fs a1)(filename \<mapsto> header)\<rparr>)
           | Some size_bytes \<Rightarrow>
               let content = header @ size_bytes @ compressed_data;
                   a2 = a1\<lparr>fs := (fs a1)(filename \<mapsto> content)\<rparr>
               in (None, a2\<lparr>status := OlcSaved filename (length content)\<rparr>))"

definition save_as_olc :: "qt \<Rightarrow> pylib \<Rightarrow> string \<Rightarrow> app \<Rightarrow> app" where
  "save_as_olc q p filename a =
     (case save_as_olc_body q p filename a of
        (None, a') \<Rightarrow> a'
      | (Some e, a') \<Rightarrow> emit [Dialog (Critical SaveOlc e)] a')"

subsection \<open>load_olc\<close>

text \<open>
  What PyQt5 takes for a \<^verbatim>\<open>QString\<close> argument (\<^verbatim>\<open>QUrl(...)\<close>, \<^verbatim>\<open>setHtml(...)\<close>) and for
  the data of \<^verbatim>\<open>loadFromData\<close>: a \<^verbatim>\<open>str\<close>, respectively a \<^verbatim>\<open>bytes\<close>, and also \<^verbatim>\<open>None\<close>,
  which it passes on as the empty string, respectively as no data; anything else is a
  \<^verbatim>\<open>TypeError\<close>.
\<close>

fun qstring :: "pyval \<Rightarrow> py_exn + string" where
  "qstring (PStr s) = Inr s"
| "qstring PNone = Inr []"
| "qstring _ = Inl (Exception ''TypeError'')"

fun qbytes :: "pyval \<Rightarrow> py_exn + bytes" where
  "qbytes (PBytes b) = Inr b"
| "qbytes PNone = Inr []"
| "qbytes _ = Inl (Exception ''TypeError'')"

text \<open>
  The loop over \<^verbatim>\<open>images.items()\<close>: \<^verbatim>\<open>image.loadFromData(image_bytes)\<close>, then
  \<^verbatim>\<open>QUrl(image_name)\<close>; each resource is added to the live document as soon as it is
  decoded.
\<close>

fun add_images :: "qt \<Rightarrow> (pyval \<times> pyval) list \<Rightarrow> document \<Rightarrow> py_exn option \<times> document" where
  "add_images q [] d = (None, d)"
| "add_images q ((name_v, bytes_v) # rest) d =
     (case qbytes bytes_v of
        Inl e \<Rightarrow> (Some e, d)
      | Inr b \<Rightarrow>
          (case qstring name_v of
             Inl e \<Rightarrow> (Some e, d)
           | Inr name \<Rightarrow> add_images q rest (addResource d name (loadFromData q b))))"

text \<open>
  What follows the \<^verbatim>\<open>with\<close> block: decompress, unpickle, add the images, set the HTML,
  then build the status message (\<^verbatim>\<open>created[:10]\<close> and \<^verbatim>\<open>metadata.get\<close> are evaluated
  after \<^verbatim>\<open>setHtml\<close>).
\<close>

definition load_olc_payload :: "qt \<Rightarrow> pylib \<Rightarrow> nat \<Rightarrow> bytes \<Rightarrow> app \<Rightarrow> py_exn option \<times> app" where
  "load_olc_payload q p file_size compressed_data a =
     (case gzip_decompress p compressed_data of
        Inl e \<Rightarrow> (Some e, a)
      | Inr serialized_data \<Rightarrow>
     (case pickle_loads p serialized_data of
        Inl e \<Rightarrow> (Some e, a)
      | Inr olc \<Rightarrow>
     (case py_get olc ''images'' (PDict []) of
        Inl e \<Rightarrow> (Some e, a)
      | Inr images \<Rightarrow>
     (case py_items images of
        Inl e \<Rightarrow> (Some e, a)
      | Inr items \<Rightarrow>
     (case add_images q items (doc a) of
        (Some e, d) \<Rightarrow> (Some e, a\<lparr>doc := d\<rparr>)
      | (None, d) \<Rightarrow>
     (case py_get olc ''html_content'' (PStr []) of
        Inl e \<Rightarrow> (Some e, a\<lparr>doc := d\<rparr>)
      | Inr html_content \<Rightarrow>
     (case qstring html_content of
        Inl e \<Rightarrow> (Some e, a\<lparr>doc := d\<rparr>)
      | Inr html \<Rightarrow>
          (let a1 = a\<lparr>doc := setHtml q d html\<rparr> in
           (case py_get olc ''metadata'' (PDict []) of
              Inl e \<Rightarrow> (Some e, a1)
            | Inr metadata \<Rightarrow>
           (case py_get olc ''created'' (PStr ''Date inconnue'') of
              Inl e \<Rightarrow> (Some e, a1)
            | Inr created \<Rightarrow>
           (case py_slice10 created of
              Inl e \<Rightarrow> (Some e, a1)
            | Inr created10 \<Rightarrow>
           (case py_get metadata ''word_count'' (PInt 0) of
              Inl e \<Rightarrow> (Some e, a1)
            | Inr word_count \<Rightarrow>
                (None, a1\<lparr>status :=
                   OlcLoaded file_size created10 word_count (length items)\<rparr>)))))))))))))"

text \<open>
  The \<^verbatim>\<open>with\<close> block: \<^verbatim>\<open>f.read(n)\<close> returns the next \<open>n\<close> bytes, or fewer at the end of
  the file; the read of the payload, whose size comes from the file, raises when the
  size is refused.
\<close>

definition load_olc_body :: "qt \<Rightarrow> pylib \<Rightarrow> string \<Rightarrow> app \<Rightarrow> py_exn option \<times> app" where
  "load_olc_body q p filename a =
     (case fs a filename of
        None \<Rightarrow> (Some (Exception ''FileNotFoundError''), a)
      | Some content \<Rightarrow>
         (let magic = take 4 content; rest1 = drop 4 content;
              a1 = emit [OpenRead filename, ReadBytes 4] a
          in (if magic \<noteq> OLC_MAGIC then (Some (ValueError (BadMagic magic)), a1)
             else
              (let version_bytes = take 4 rest1; rest2 = drop 4 rest1;
                   a2 = emit [ReadBytes 4] a1
               in (case unpack_f (byteorder p) version_bytes of
                    None \<Rightarrow> (Some (Exception ''struct.error''), a2)
                  | Some version \<Rightarrow>
                     (let a3 = (if float_gt (f32_value version) 1
                                then emit [Dialog (Warning (VersionRecente (f32_value version)))] a2
                                else a2);
                          size_bytes = take 8 rest2; rest3 = drop 8 rest2;
                          a4 = emit [ReadBytes 8] a3
                      in (case unpack_Q (byteorder p) size_bytes of
                           None \<Rightarrow> (Some (Exception ''struct.error''), a4)
                         | Some data_size \<Rightarrow>
                            (case read_refused p data_size of
                               Some c \<Rightarrow> (Some (Exception c), a4)
                             | None \<Rightarrow>
                                (let compressed_data = take data_size rest3;
                                     a5 = emit [ReadBytes data_size] a4
                                 in (if length compressed_data \<noteq> data_size
                                     then (Some (ValueError
                                             (ShortRead (length compressed_data) data_size)), a5)
                                     else load_olc_payload q p (length content)
                                            compressed_data a5))))))))))"

text \<open>The two handlers: \<^verbatim>\<open>except ValueError\<close>, then \<^verbatim>\<open>except Exception\<close>.\<close>

definition load_olc :: "qt \<Rightarrow> pylib \<Rightarrow> string \<Rightarrow> app \<Rightarrow> app" where
  "load_olc q p filename a =
     (case load_olc_body q p filename a of
        (None, a') \<Rightarrow> a'
      | (Some (ValueError m), a') \<Rightarrow> emit [Dialog (Critical FichierInvalide (ValueError m))] a'
      | (Some (Exception c), a') \<Rightarrow> emit [Dialog (Critical LoadOlc (Exception c))] a')"

subsection \<open>Image references of a document\<close>

text \<open>
  The image identifiers referenced by the fragments of a document, in reading order,
  and whether the document resolves an identifier to an image that is not null.
\<close>

definition image_refs :: "document \<Rightarrow> string list" where
  "image_refs d =
     [image_name (charFormat fr). b \<leftarrow> blocks d, fr \<leftarrow> fragments b,
        isImageFormat (charFormat fr)]"

definition resolves :: "qt \<Rightarrow> document \<Rightarrow> string \<Rightarrow> bool" where
  "resolves q d name = (case resource q d name of Some (Image png) \<Rightarrow> True | _ \<Rightarrow> False)"

section \<open>The word-processor codec: export\<close>

text \<open>
  python-docx, as the source drives it. A paragraph is its alignment and, in document
  order, what \<^verbatim>\<open>add_run\<close>, \<^verbatim>\<open>add_picture\<close> and \<^verbatim>\<open>paragraph._p.append\<close> put into it: runs,
  a run holding an inline picture (stream, \<^verbatim>\<open>Inches(width)\<close>, \<^verbatim>\<open>Inches(height)\<close>), and
  \<^verbatim>\<open>w:hyperlink\<close> elements with their external relationship target and the colour,
  underline and text of the run inside.
\<close>

datatype wd_align = WD_LEFT | WD_CENTER | WD_RIGHT | WD_JUSTIFY | WD_OTHER

datatype docx_color = ColorInt nat | ColorRGB rgb

record docx_run =
  run_text :: string
  run_font_name :: "string option"
  run_font_size_pt :: "real option"
  run_bold :: "bool option"
  run_italic :: "bool option"
  run_underline :: "bool option"
  run_color :: "docx_color option"
  run_highlight :: "nat option"

definition empty_run :: docx_run where
  "empty_run = \<lparr>run_text = [], run_font_name = None, run_font_size_pt = None,
     run_bold = None, run_italic = None, run_underline = None, run_color = None,
     run_highlight = None\<rparr>"

datatype docx_elem =
    Run docx_run
  | Picture bytes real real
  | Hyperlink string string string string

record docx_paragraph =
  par_alignment :: "wd_align option"
  par_elems :: "docx_elem list"

record docxlib =
  DOCX_AVAILABLE :: bool
  Document_open :: "bytes \<Rightarrow> py_exn + docx_paragraph list"
  Document_save :: "docx_paragraph list \<Rightarrow> py_exn + bytes"
  add_picture_ok :: "bytes \<Rightarrow> bool"

definition add_elem :: "docx_paragraph \<Rightarrow> docx_elem \<Rightarrow> docx_paragraph" where
  "add_elem paragraph e = paragraph\<lparr>par_elems := par_elems paragraph @ [e]\<rparr>"

text \<open>
  \<^verbatim>\<open>add_hyperlink(paragraph, url, text)\<close>: a \<^verbatim>\<open>w:hyperlink\<close> related to the url, holding
  one run with \<^verbatim>\<open>w:color\<close> 0000FF, \<^verbatim>\<open>w:u\<close> single and the text, appended to the paragraph.
\<close>

definition add_hyperlink :: "docx_paragraph \<Rightarrow> string \<Rightarrow> string \<Rightarrow> docx_paragraph" where
  "add_hyperlink paragraph url txt =
     add_elem paragraph (Hyperlink url ''0000FF'' ''single'' txt)"

text \<open>
  The run of a fragment that is not a link: font name, size, bold, italic, underline
  and colour copied from the character format (the source has this code twice, for an
  anchor with an empty href and for plain text).
\<close>

definition text_run :: "fragment \<Rightarrow> docx_run" where
  "text_run fr =
     (let char_format = charFormat fr in
      \<lparr>run_text = frag_text fr,
       run_font_name = Some (font_family char_format),
       run_font_size_pt = Some (of_int (font_pointSize char_format)),
       run_bold = Some (font_bold char_format),
       run_italic = Some (font_italic char_format),
       run_underline = Some (font_underline char_format),
       run_color = Some (ColorRGB (foreground char_format)),
       run_highlight = None\<rparr>)"

text \<open>The run added for a link before \<^verbatim>\<open>add_hyperlink\<close> is called.\<close>

definition link_run :: "fragment \<Rightarrow> docx_run" where
  "link_run fr =
     (let char_format = charFormat fr in
      \<lparr>run_text = frag_text fr,
       run_font_name = Some (font_family char_format),
       run_font_size_pt = Some (of_int (font_pointSize char_format)),
       run_bold = Some (font_bold char_format),
       run_italic = Some (font_italic char_format),
       run_underline = Some True,
       run_color = Some (ColorRGB (0, 0, 255)),
       run_highlight = None\<rparr>)"

text \<open>
  One turn of the fragment loop of \<^verbatim>\<open>save_as_docx\<close>. When \<^verbatim>\<open>add_picture\<close> raises, the
  handler prints the error and the empty run of \<^verbatim>\<open>paragraph.add_run()\<close> stays.
\<close>

definition save_docx_fragment ::
  "docxlib \<Rightarrow> qt \<Rightarrow> document \<Rightarrow> docx_paragraph \<Rightarrow> fragment \<Rightarrow> docx_paragraph" where
  "save_docx_fragment L q d paragraph fr =
     (let char_format = charFormat fr in
      if isImageFormat char_format then
        (case resource q d (image_name char_format) of
           Some (Image png) \<Rightarrow>
             (let width_inches = image_width char_format / 96;
                  height_inches = image_height char_format / 96;
                  max_width = 6;
                  clamped = (if width_inches > max_width
                             then (max_width, height_inches * (max_width / width_inches))
                             else (width_inches, height_inches))
              in if add_picture_ok L png
                 then add_elem paragraph (Picture png (fst clamped) (snd clamped))
                 else add_elem paragraph (Run empty_run))
         | _ \<Rightarrow> paragraph)
      else if isAnchor char_format \<or> anchorHref char_format \<noteq> [] then
        (let link_url = anchorHref char_format; link_text = frag_text fr in
         if link_url \<noteq> []
         then add_hyperlink (add_elem paragraph (Run (link_run fr))) link_url link_text
         else add_elem paragraph (Run (text_run fr)))
      else add_elem paragraph (Run (text_run fr)))"

definition docx_alignment :: "align \<Rightarrow> wd_align" where
  "docx_alignment al =
     (if al = AlignCenter then WD_CENTER
      else if al = AlignRight then WD_RIGHT
      else if al = AlignJustify then WD_JUSTIFY
      else WD_LEFT)"

definition save_docx_block :: "docxlib \<Rightarrow> qt \<Rightarrow> document \<Rightarrow> block \<Rightarrow> docx_paragraph" where
  "save_docx_block L q d b =
     foldl (save_docx_fragment L q d)
       \<lparr>par_alignment = Some (docx_alignment (alignment b)), par_elems = []\<rparr>
       (fragments b)"

text \<open>
  \<^verbatim>\<open>save_as_docx\<close>: the guard on \<^verbatim>\<open>DOCX_AVAILABLE\<close> returns before the \<^verbatim>\<open>try\<close>; the
  block loop gives one paragraph for each block, in order (\<open>docx_export\<close>). Nothing
  is written before \<^verbatim>\<open>doc.save\<close> at the end of the \<^verbatim>\<open>try\<close>, so an exception of
  python-docx on any of the paragraphs handed to it is \<open>Document_save\<close> giving \<open>Inl\<close>;
  the other exception is \<^verbatim>\<open>doc.save\<close> failing to open the file.
\<close>

definition docx_export :: "docxlib \<Rightarrow> qt \<Rightarrow> document \<Rightarrow> docx_paragraph list" where
  "docx_export L q d = map (save_docx_block L q d) (blocks d)"

definition save_as_docx :: "docxlib \<Rightarrow> qt \<Rightarrow> pylib \<Rightarrow> string \<Rightarrow> app \<Rightarrow> app" where
  "save_as_docx L q p filename a =
     (if \<not> DOCX_AVAILABLE L
      then emit [Dialog (Warning (ModuleManquant ''python-docx''))] a
      else
        (case Document_save L (docx_export L q (doc a)) of
           Inl e \<Rightarrow> emit [Dialog (Critical SaveDocx e)] a
         | Inr data \<Rightarrow>
             if \<not> writable p filename
             then emit [Dialog (Critical SaveDocx (Exception ''OSError''))] a
             else (emit [OpenWrite filename] a)
                    \<lparr>fs := (fs a)(filename \<mapsto> data), status := DocxSaved filename\<rparr>))"

text \<open>The text a reader of the paragraph sees: the texts of its elements, in order.\<close>

fun elem_text :: "docx_elem \<Rightarrow> string" where
  "elem_text (Run r) = run_text r"
| "elem_text (Picture png w h) = []"
| "elem_text (Hyperlink url color u txt) = txt"

definition paragraph_text :: "docx_paragraph \<Rightarrow> string" where
  "paragraph_text paragraph = concat (map elem_text (par_elems paragraph))"

text \<open>What one turn of the fragment loop appends to the paragraph.\<close>

definition docx_fragment_elems :: "docxlib \<Rightarrow> qt \<Rightarrow> document \<Rightarrow> fragment \<Rightarrow> docx_elem list" where
  "docx_fragment_elems L q d fr =
     par_elems (save_docx_fragment L q d \<lparr>par_alignment = None, par_elems = []\<rparr> fr)"

section \<open>The office-suite codec: export\<close>

text \<open>
  odfpy, as \<^verbatim>\<open>save_as_odt\<close> drives it: text properties with the attributes the source
  sets, a style named \<^verbatim>\<open>link_\<close> or \<^verbatim>\<open>style_\<close> followed by \<^verbatim>\<open>id(fragment)\<close>, and the
  elements added to a paragraph: a frame (width and height in inches, anchor type, the
  number in the picture name \<^verbatim>\<open>Pictures/image_n.png\<close>), a link around a styled span, a
  styled span. A width \<open>w\<close> stands for the attribute \<^verbatim>\<open>f"{w}in"\<close>, a font size \<open>n\<close> for
  \<^verbatim>\<open>f"{n}pt"\<close>.
\<close>

record text_props =
  fontweight :: "string option"
  fontstyle :: "string option"
  textunderlinestyle :: "string option"
  textunderlinecolor :: "string option"
  fontsize_pt :: "int option"
  fontfamily :: "string option"
  color :: "string option"

definition TextProperties :: text_props where
  "TextProperties = \<lparr>fontweight = None, fontstyle = None, textunderlinestyle = None,
     textunderlinecolor = None, fontsize_pt = None, fontfamily = None, color = None\<rparr>"

record odt_style =
  style_prefix :: string
  style_id :: nat
  style_props :: text_props

text \<open>
  \<^verbatim>\<open>Span(stylename=style, ...)\<close> keeps the name of the style, not the style: the span is
  tied to the styles of that name in \<^verbatim>\<open>automaticstyles\<close>, and \<^verbatim>\<open>id(fragment)\<close> may
  give the same name twice.
\<close>

definition name_of_style :: "odt_style \<Rightarrow> string \<times> nat" where
  "name_of_style s = (style_prefix s, style_id s)"

datatype odt_elem =
    Frame real real string nat
  | Link string "string \<times> nat" string
  | Span "string \<times> nat" string

record odt_document =
  automaticstyles :: "odt_style list"
  pictures :: "(nat \<times> bytes) list"
  body :: "odt_elem list list"

text \<open>
  What \<^verbatim>\<open>load(filename)\<close> of odfpy gives, as \<^verbatim>\<open>load_odt\<close> reads it: nodes are text nodes
  or elements with the local part of their qname, their attributes and their child
  nodes; of the document, the elements found by \<^verbatim>\<open>getElementsByType(P)\<close> and
  \<^verbatim>\<open>getElementsByType(H)\<close> and the child nodes of \<^verbatim>\<open>automaticstyles\<close> and \<^verbatim>\<open>styles\<close>.
  \<^verbatim>\<open>getAttribute\<close> may raise, and \<^verbatim>\<open>teletype.extractText\<close> is odfpy's.
\<close>

datatype odf_node = TextNode string | Element string "(string \<times> string) list" "odf_node list"

record odf_document =
  elements_P :: "odf_node list"
  elements_H :: "odf_node list"
  in_automaticstyles :: "odf_node list"
  in_styles :: "odf_node list"

record odflib =
  ODT_AVAILABLE :: bool
  odt_save :: "odt_document \<Rightarrow> py_exn + bytes"
  odf_load :: "bytes \<Rightarrow> py_exn + odf_document"
  getAttribute :: "odf_node \<Rightarrow> string \<Rightarrow> py_exn + string option"
  extractText :: "odf_node \<Rightarrow> string"

text \<open>\<^verbatim>\<open>f"#{r:02x}{g:02x}{b:02x}"\<close>.\<close>

definition hex2 :: "byte \<Rightarrow> string" where
  "hex2 b = [''0123456789abcdef'' ! (unat b div 16), ''0123456789abcdef'' ! (unat b mod 16)]"

definition color_hex :: "rgb \<Rightarrow> string" where
  "color_hex c = (case c of (r, g, b) \<Rightarrow> ''#'' @ hex2 r @ hex2 g @ hex2 b)"

text \<open>The text properties of a link and of any other text fragment.\<close>

definition link_props :: "char_format \<Rightarrow> text_props" where
  "link_props char_format =
     (let tp1 = TextProperties\<lparr>color := Some ''#0000FF'',
                  textunderlinestyle := Some ''solid'',
                  textunderlinecolor := Some ''#0000FF'',
                  fontsize_pt := Some (font_pointSize char_format),
                  fontfamily := Some (font_family char_format)\<rparr>;
          tp2 = (if font_bold char_format then tp1\<lparr>fontweight := Some ''bold''\<rparr> else tp1);
          tp3 = (if font_italic char_format then tp2\<lparr>fontstyle := Some ''italic''\<rparr> else tp2)
      in tp3)"

definition span_props :: "char_format \<Rightarrow> text_props" where
  "span_props char_format =
     (let tp1 = (if font_bold char_format
                 then TextProperties\<lparr>fontweight := Some ''bold''\<rparr> else TextProperties);
          tp2 = (if font_italic char_format then tp1\<lparr>fontstyle := Some ''italic''\<rparr> else tp1);
          tp3 = (if font_underline char_format
                 then tp2\<lparr>textunderlinestyle := Some ''solid''\<rparr> else tp2)
      in tp3\<lparr>fontsize_pt := Some (font_pointSize char_format),
             fontfamily := Some (font_family char_format),
             color := Some (color_hex (foreground char_format))\<rparr>)"

text \<open>
  The state of the export loop: the ODF document so far, \<^verbatim>\<open>image_counter\<close>, the
  paragraph \<^verbatim>\<open>p\<close> being filled, and the position of the fragment in the document (block
  and fragment index), from which \<^verbatim>\<open>id(fragment)\<close> is taken.
\<close>

record odt_state =
  odt_doc :: odt_document
  image_counter :: nat
  odt_p :: "odt_elem list"
  block_no :: nat
  fragment_no :: nat

definition add_span :: "odt_state \<Rightarrow> odt_style \<Rightarrow> odt_elem \<Rightarrow> odt_state" where
  "add_span st style e =
     st\<lparr>odt_doc := (odt_doc st)\<lparr>automaticstyles := automaticstyles (odt_doc st) @ [style]\<rparr>,
        odt_p := odt_p st @ [e]\<rparr>"

definition save_odt_fragment ::
  "qt \<Rightarrow> pylib \<Rightarrow> document \<Rightarrow> odt_state \<Rightarrow> fragment \<Rightarrow> odt_state" where
  "save_odt_fragment q p d st fr =
     (let char_format = charFormat fr;
          ident = object_id p (block_no st) (fragment_no st);
          st' =
           (if isImageFormat char_format then
              (case resource q d (image_name char_format) of
                 Some (Image png) \<Rightarrow>
                   (let n = image_counter st + 1;
                        width_inches = image_width char_format / 96;
                        height_inches = image_height char_format / 96
                    in st\<lparr>image_counter := n,
                          odt_doc := (odt_doc st)\<lparr>pictures := pictures (odt_doc st) @ [(n, png)]\<rparr>,
                          odt_p := odt_p st @ [Frame width_inches height_inches ''as-char'' n]\<rparr>)
               | _ \<Rightarrow> st)
            else if isAnchor char_format \<or> anchorHref char_format \<noteq> [] then
              (let link_url = anchorHref char_format; link_text = frag_text fr in
               if link_url \<noteq> [] then
                 (let style = \<lparr>style_prefix = ''link_'', style_id = ident,
                                style_props = link_props char_format\<rparr>
                  in add_span st style (Link link_url (name_of_style style) link_text))
               else
                 (let style = \<lparr>style_prefix = ''style_'', style_id = ident,
                                style_props = span_props char_format\<rparr>
                  in add_span st style (Span (name_of_style style) (frag_text fr))))
            else
              (let style = \<lparr>style_prefix = ''style_'', style_id = ident,
                             style_props = span_props char_format\<rparr>
               in add_span st style (Span (name_of_style style) (frag_text fr))))
      in st'\<lparr>fragment_no := fragment_no st + 1\<rparr>)"

text \<open>One turn of the block loop: a fresh \<^verbatim>\<open>P()\<close>, the fragments, \<^verbatim>\<open>doc.text.addElement(p)\<close>.\<close>

definition save_odt_block :: "qt \<Rightarrow> pylib \<Rightarrow> document \<Rightarrow> odt_state \<Rightarrow> block \<Rightarrow> odt_state" where
  "save_odt_block q p d st b =
     (let st1 = foldl (save_odt_fragment q p d) (st\<lparr>odt_p := [], fragment_no := 0\<rparr>) (fragments b)
      in st1\<lparr>odt_doc := (odt_doc st1)\<lparr>body := body (odt_doc st1) @ [odt_p st1]\<rparr>,
             block_no := block_no st1 + 1\<rparr>)"

definition OpenDocumentText :: odt_state where
  "OpenDocumentText = \<lparr>odt_doc = \<lparr>automaticstyles = [], pictures = [], body = []\<rparr>,
     image_counter = 0, odt_p = [], block_no = 0, fragment_no = 0\<rparr>"

definition odt_export :: "qt \<Rightarrow> pylib \<Rightarrow> document \<Rightarrow> odt_document" where
  "odt_export q p d = odt_doc (foldl (save_odt_block q p d) OpenDocumentText (blocks d))"

definition save_as_odt :: "odflib \<Rightarrow> qt \<Rightarrow> pylib \<Rightarrow> string \<Rightarrow> app \<Rightarrow> app" where
  "save_as_odt M q p filename a =
     (if \<not> ODT_AVAILABLE M
      then emit [Dialog (Warning (ModuleManquant ''odfpy''))] a
      else
        (case odt_save M (odt_export q p (doc a)) of
           Inl e \<Rightarrow> emit [Dialog (Critical SaveOdt e)] a
         | Inr data \<Rightarrow>
             if \<not> writable p filename
             then emit [Dialog (Critical SaveOdt (Exception ''OSError''))] a
             else (emit [OpenWrite filename] a)
                    \<lparr>fs := (fs a)(filename \<mapsto> data), status := OdtSaved filename\<rparr>))"

text \<open>
  The text properties with which a span is shown blue and underlined: the colour and
  the underline colour \<^verbatim>\<open>#0000FF\<close> and the underline style \<^verbatim>\<open>solid\<close>.
\<close>

definition blue_underlined :: "text_props \<Rightarrow> bool" where
  "blue_underlined tp =
     (color tp = Some ''#0000FF'' \<and> textunderlinestyle tp = Some ''solid''
      \<and> textunderlinecolor tp = Some ''#0000FF'')"

section \<open>The markup codec and the dispatch of a save\<close>

text \<open>
  \<^verbatim>\<open>save_as_html\<close>: the file is opened for writing before the text is encoded, so an
  encoding error leaves it empty.
\<close>

definition save_as_html :: "qt \<Rightarrow> pylib \<Rightarrow> string \<Rightarrow> app \<Rightarrow> app" where
  "save_as_html q p filename a =
     (let html = toHtml q (doc a) in
      if \<not> writable p filename
      then emit [Dialog (Critical SaveHtml (Exception ''OSError''))] a
      else
        (case utf8_encode p html of
           Inl e \<Rightarrow> emit [OpenWrite filename, Dialog (Critical SaveHtml e)]
                      (a\<lparr>fs := (fs a)(filename \<mapsto> [])\<rparr>)
         | Inr data \<Rightarrow> (emit [OpenWrite filename] a)
                      \<lparr>fs := (fs a)(filename \<mapsto> data), status := HtmlSaved filename\<rparr>))"

text \<open>\<^verbatim>\<open>str.endswith\<close> and \<^verbatim>\<open>os.path.basename\<close>.\<close>

definition endswith :: "string \<Rightarrow> string \<Rightarrow> bool" where
  "endswith s suffix =
     (length suffix \<le> length s \<and> drop (length s - length suffix) s = suffix)"

definition basename :: "string \<Rightarrow> string" where
  "basename path = rev (takeWhile (\<lambda>c. c \<noteq> CHR ''/'') (rev path))"

text \<open>
  The plain-text branch of \<^verbatim>\<open>save_to_file\<close>; its exceptions reach the handler of
  \<^verbatim>\<open>save_to_file\<close>.
\<close>

definition save_plain_text :: "qt \<Rightarrow> pylib \<Rightarrow> string \<Rightarrow> app \<Rightarrow> py_exn option \<times> app" where
  "save_plain_text q p filename a =
     (if \<not> writable p filename then (Some (Exception ''OSError''), a)
      else
        (case utf8_encode p (toPlainText q (doc a)) of
           Inl e \<Rightarrow> (Some e, emit [OpenWrite filename] (a\<lparr>fs := (fs a)(filename \<mapsto> [])\<rparr>))
         | Inr data \<Rightarrow> (None, emit [OpenWrite filename] (a\<lparr>fs := (fs a)(filename \<mapsto> data)\<rparr>))))"

text \<open>
  \<^verbatim>\<open>save_to_file\<close>: the codec is chosen by the extension; the \<^verbatim>\<open>save_as_\<close> methods
  return nothing and raise nothing, whatever happened in them, and the lines after the
  dispatch set the current file, clear the modified flag and return \<^verbatim>\<open>True\<close>.
\<close>

definition save_to_file ::
  "docxlib \<Rightarrow> odflib \<Rightarrow> qt \<Rightarrow> pylib \<Rightarrow> string \<Rightarrow> app \<Rightarrow> bool \<times> app" where
  "save_to_file L M q p filename a =
     (let r = (if endswith filename ''.olc'' then (None, save_as_olc q p filename a)
               else if endswith filename ''.docx'' then (None, save_as_docx L q p filename a)
               else if endswith filename ''.odt'' then (None, save_as_odt M q p filename a)
               else if endswith filename ''.html'' then (None, save_as_html q p filename a)
               else save_plain_text q p filename a)
      in case r of
           (None, a') \<Rightarrow>
             (True, a'\<lparr>current_file := Some filename, is_modified := False,
                       window_title := ''OpenLautrec - '' @ basename filename,
                       status := FileSaved filename\<rparr>)
         | (Some e, a') \<Rightarrow> (False, emit [Dialog (Critical SaveToFile e)] a'))"

section \<open>The importers\<close>

subsection \<open>load_docx\<close>








subsection \<open>load_odt\<close>



text \<open>\<^verbatim>\<open>font_size.replace('pt', '')\<close>.\<close>

fun remove_pt :: "string \<Rightarrow> string" where
  "remove_pt [] = []"
| "remove_pt [c] = [c]"
| "remove_pt (c # c' # s) =
     (if c = CHR ''p'' \<and> c' = CHR ''t'' then remove_pt s else c # remove_pt (c' # s))"

text \<open>
  The attributes of one \<^verbatim>\<open>text-properties\<close> element, each in its own \<^verbatim>\<open>try\<close>: an
  attribute that raises, or whose value does not parse, is skipped.
\<close>

definition rgb_nats :: "rgb \<Rightarrow> nat \<times> nat \<times> nat" where
  "rgb_nats c = (case c of (r, g, b) \<Rightarrow> (unat r, unat g, unat b))"

definition apply_text_properties :: "odflib \<Rightarrow> qt \<Rightarrow> pylib \<Rightarrow> fmt \<Rightarrow> odf_node \<Rightarrow> fmt" where
  "apply_text_properties M q p fmt0 prop =
     (let fmt1 = (case getAttribute M prop ''fontweight'' of
                    Inr (Some w) \<Rightarrow> if w = ''bold'' then fmt0\<lparr>fmt_bold := True\<rparr> else fmt0
                  | _ \<Rightarrow> fmt0);
          fmt2 = (case getAttribute M prop ''fontstyle'' of
                    Inr (Some s) \<Rightarrow> if s = ''italic'' then fmt1\<lparr>fmt_italic := True\<rparr> else fmt1
                  | _ \<Rightarrow> fmt1);
          fmt3 = (case getAttribute M prop ''textunderlinestyle'' of
                    Inr (Some u) \<Rightarrow>
                      if u \<noteq> [] \<and> u \<noteq> ''none'' then fmt2\<lparr>fmt_underline := True\<rparr> else fmt2
                  | _ \<Rightarrow> fmt2);
          fmt4 = (case getAttribute M prop ''fontsize'' of
                    Inr (Some font_size) \<Rightarrow>
                      if font_size \<noteq> [] then
                        (case py_float p (remove_pt font_size) of
                           Some size_value \<Rightarrow> fmt3\<lparr>fmt_pointSize := Some size_value\<rparr>
                         | None \<Rightarrow> fmt3)
                      else fmt3
                  | _ \<Rightarrow> fmt3);
          fmt5 = (case getAttribute M prop ''fontfamily'' of
                    Inr (Some family) \<Rightarrow>
                      if family \<noteq> [] then fmt4\<lparr>fmt_family := Some family\<rparr> else fmt4
                  | _ \<Rightarrow> fmt4);
          fmt6 = (case getAttribute M prop ''color'' of
                    Inr (Some color_str) \<Rightarrow>
                      if take 1 color_str = ''#'' then
                        (case QColor q color_str of
                           Some c \<Rightarrow> fmt5\<lparr>fmt_foreground := Some (rgb_nats c)\<rparr>
                         | None \<Rightarrow> fmt5)
                      else fmt5
                  | _ \<Rightarrow> fmt5);
          fmt7 = (case getAttribute M prop ''backgroundcolor'' of
                    Inr (Some bg_color_str) \<Rightarrow>
                      if take 1 bg_color_str = ''#'' then
                        (case QColor q bg_color_str of
                           Some c \<Rightarrow> fmt6\<lparr>fmt_background := Some (rgb_nats c)\<rparr>
                         | None \<Rightarrow> fmt6)
                      else fmt6
                  | _ \<Rightarrow> fmt6)
      in fmt7)"

text \<open>\<^verbatim>\<open>_apply_odt_style\<close>: every \<^verbatim>\<open>text-properties\<close> child of the style.\<close>

fun apply_odt_props :: "odflib \<Rightarrow> qt \<Rightarrow> pylib \<Rightarrow> fmt \<Rightarrow> odf_node list \<Rightarrow> fmt" where
  "apply_odt_props M q p f [] = f"
| "apply_odt_props M q p f (TextNode s # props) = apply_odt_props M q p f props"
| "apply_odt_props M q p f (Element qn attrs cs # props) =
     apply_odt_props M q p
       (if qn = ''text-properties''
        then apply_text_properties M q p f (Element qn attrs cs) else f)
       props"

fun apply_odt_style :: "odflib \<Rightarrow> qt \<Rightarrow> pylib \<Rightarrow> fmt \<Rightarrow> odf_node \<Rightarrow> fmt" where
  "apply_odt_style M q p f (TextNode s) = f"
| "apply_odt_style M q p f (Element qn attrs props) = apply_odt_props M q p f props"

text \<open>The format of a span: a fresh one, with the style of its \<^verbatim>\<open>stylename\<close> if known.\<close>

definition span_fmt ::
  "odflib \<Rightarrow> qt \<Rightarrow> pylib \<Rightarrow> (string \<times> odf_node) list \<Rightarrow> odf_node \<Rightarrow> fmt" where
  "span_fmt M q p sd child =
     (case getAttribute M child ''stylename'' of
        Inr (Some style_name) \<Rightarrow>
          (case map_of sd style_name of
             Some style \<Rightarrow>
               if style_name \<noteq> [] then apply_odt_style M q p QTextCharFormat style
               else QTextCharFormat
           | None \<Rightarrow> QTextCharFormat)
      | _ \<Rightarrow> QTextCharFormat)"

text \<open>\<^verbatim>\<open>_process_odt_element\<close>: text nodes, spans, and the other elements recursively.\<close>

fun process_odt_element ::
    "odflib \<Rightarrow> qt \<Rightarrow> pylib \<Rightarrow> (string \<times> odf_node) list \<Rightarrow> document \<Rightarrow> odf_node \<Rightarrow> document"
  and process_odt_children ::
    "odflib \<Rightarrow> qt \<Rightarrow> pylib \<Rightarrow> (string \<times> odf_node) list \<Rightarrow> document \<Rightarrow> odf_node list \<Rightarrow> document"
  where
  "process_odt_element M q p sd d (TextNode s) = d"
| "process_odt_element M q p sd d (Element qn attrs cs) = process_odt_children M q p sd d cs"
| "process_odt_children M q p sd d [] = d"
| "process_odt_children M q p sd d (TextNode s # cs) =
     process_odt_children M q p sd (if s \<noteq> [] then insertText q d s None else d) cs"
| "process_odt_children M q p sd d (Element qn attrs cs' # cs) =
     process_odt_children M q p sd
       (if qn = ''span'' then
          (let span_text = extractText M (Element qn attrs cs') in
           if span_text \<noteq> []
           then insertText q d span_text (Some (span_fmt M q p sd (Element qn attrs cs')))
           else d)
        else process_odt_element M q p sd d (Element qn attrs cs'))
       cs"


subsection \<open>The HTML branch of open_file\<close>

text \<open>
  \<^verbatim>\<open>open_file\<close> reads a file named \<^verbatim>\<open>.html\<close> or \<^verbatim>\<open>.htm\<close> as UTF-8 text and gives it to
  \<^verbatim>\<open>setHtml\<close>; an exception reaches the handler of \<^verbatim>\<open>open_file\<close>.
\<close>

definition open_html :: "qt \<Rightarrow> pylib \<Rightarrow> string \<Rightarrow> app \<Rightarrow> py_exn option \<times> app" where
  "open_html q p filename a =
     (case fs a filename of
        None \<Rightarrow> (Some (Exception ''FileNotFoundError''), a)
      | Some data \<Rightarrow>
          (case utf8_decode p data of
             Inl e \<Rightarrow> (Some e, emit [OpenRead filename] a)
           | Inr content \<Rightarrow>
               (None, (emit [OpenRead filename] a)\<lparr>doc := setHtml q (doc a) content\<rparr>)))"

section \<open>Concrete inputs\<close>

text \<open>
  A small stand-in for the libraries, on which the model runs: the HTML of a document
  is the concatenation of its fragment texts, \<^verbatim>\<open>setHtml\<close> gives one block with one
  fragment, compression is the identity and the pickle of every value is the same
  three bytes, which unpickle to the snapshot of \<open>example_doc\<close>.
\<close>

definition example_format :: char_format where
  "example_format = \<lparr>isImageFormat = False, image_name = [], image_width = 0,
     image_height = 0, isAnchor = False, anchorHref = [], font_family = ''Arial'',
     font_pointSize = 12, font_bold = False, font_italic = False, font_underline = False,
     foreground = (0, 0, 0)\<rparr>"

definition example_qt :: qt where
  "example_qt = \<lparr>
     toHtml = (\<lambda>d. concat (map (\<lambda>b. concat (map frag_text (fragments b))) (blocks d))),
     setHtml = (\<lambda>d h. d\<lparr>blocks := [\<lparr>alignment = AlignLeft,
                  fragments = [\<lparr>charFormat = example_format, frag_text = h\<rparr>]\<rparr>]\<rparr>),
     toPlainText = (\<lambda>d. concat (map (\<lambda>b. concat (map frag_text (fragments b))) (blocks d))),
     clear = (\<lambda>d. \<lparr>blocks = [], resources = Map.empty\<rparr>),
     insertText = (\<lambda>d s f. d\<lparr>blocks := blocks d @ [\<lparr>alignment = AlignLeft,
                  fragments = [\<lparr>charFormat = example_format, frag_text = s\<rparr>]\<rparr>]\<rparr>),
     setBlockFormat = (\<lambda>d al. d),
     loadResource = (\<lambda>name. None),
     loadFromData = (\<lambda>b. Image b),
     QColor = (\<lambda>s. None)\<rparr>"

definition example_doc :: document where
  "example_doc = \<lparr>
     blocks = [\<lparr>alignment = AlignLeft, fragments = [
        \<lparr>charFormat = example_format, frag_text = ''Hello''\<rparr>,
        \<lparr>charFormat = example_format\<lparr>isImageFormat := True, image_name := ''logo.png'',
            image_width := 1000, image_height := 500\<rparr>, frag_text = []\<rparr>]\<rparr>],
     resources = [''logo.png'' \<mapsto> Image [7, 7]]\<rparr>"

definition example_py0 :: pylib where
  "example_py0 = \<lparr>
     byteorder = LittleEndian,
     now_isoformat = (\<lambda>n. ''2024-05-17T10:00:00''),
     gzip_compress = (\<lambda>b. b),
     gzip_decompress = (\<lambda>b. Inr b),
     pickle_dumps = (\<lambda>v. [1, 2, 3]),
     pickle_loads = (\<lambda>b. Inl (Exception ''UnpicklingError'')),
     utf8_encode = (\<lambda>s. Inr (map of_char s)),
     utf8_decode = (\<lambda>b. Inr (map (\<lambda>x. char_of (unat x)) b)),
     writable = (\<lambda>name. True),
     read_refused = (\<lambda>n. if 2 ^ 63 - 1 \<le> n then Some ''OverflowError'' else None),
     object_id = (\<lambda>i j. 1000 + 10 * i + j),
     py_float = (\<lambda>s. None)\<rparr>"

definition example_py :: pylib where
  "example_py = example_py0\<lparr>pickle_loads :=
     (\<lambda>b. Inr (olc_data example_qt example_py0 example_doc))\<rparr>"

text \<open>
  A window holding \<open>example_doc\<close>, and five files: a ZIP archive renamed to
  \<^verbatim>\<open>.olc\<close>, a container that declares 16 payload bytes and holds 3, two containers
  with a 3-byte payload, of version 2.0 and of version 1.0, and a container that
  declares \<open>2 ^ 64 - 1\<close> payload bytes.
\<close>

definition example_app :: app where
  "example_app = \<lparr>doc = example_doc, current_file = None, is_modified = True,
     window_title = ''OpenLautrec - Nouveau document'', status = NoStatus,
     fs = [''zip.olc'' \<mapsto> [0x50, 0x4B, 3, 4, 20],
           ''short.olc'' \<mapsto> OLC_MAGIC @ [0, 0, 0x80, 0x3F] @ [16, 0, 0, 0, 0, 0, 0, 0] @ [1, 2, 3],
           ''v2.olc'' \<mapsto> OLC_MAGIC @ [0, 0, 0, 0x40] @ [3, 0, 0, 0, 0, 0, 0, 0] @ [1, 2, 3],
           ''v1.olc'' \<mapsto> OLC_MAGIC @ [0, 0, 0x80, 0x3F] @ [3, 0, 0, 0, 0, 0, 0, 0] @ [1, 2, 3],
           ''huge.olc'' \<mapsto> OLC_MAGIC @ [0, 0, 0x80, 0x3F]
              @ [0xFF, 0xFF, 0xFF, 0xFF, 0xFF, 0xFF, 0xFF, 0xFF] @ [1, 2, 3]],
     log = []\<rparr>"

text \<open>
  Stand-ins for python-docx and odfpy, a link whose stored colour is green, and the
  two fragments of \<open>example_doc\<close>.
\<close>

definition example_docx :: docxlib where
  "example_docx = \<lparr>DOCX_AVAILABLE = True, Document_open = (\<lambda>b. Inr []),
     Document_save = (\<lambda>ps. Inr [0x50, 0x4B]), add_picture_ok = (\<lambda>png. True)\<rparr>"

definition example_odf :: odflib where
  "example_odf = \<lparr>ODT_AVAILABLE = True, odt_save = (\<lambda>d. Inr [0x50, 0x4B]),
     odf_load = (\<lambda>b. Inl (Exception ''BadZipFile'')),
     getAttribute = (\<lambda>n name. case n of TextNode s \<Rightarrow> Inl (Exception ''AttributeError'')
                       | Element qn attrs cs \<Rightarrow> Inr (map_of attrs name)),
     extractText = (\<lambda>n. [])\<rparr>"

definition green_link :: fragment where
  "green_link = \<lparr>charFormat = example_format\<lparr>isAnchor := True,
       anchorHref := ''https://example.org'', foreground := (0, 128, 0)\<rparr>,
     frag_text = ''site''\<rparr>"

definition hello_fragment :: fragment where
  "hello_fragment = \<lparr>charFormat = example_format, frag_text = ''Hello''\<rparr>"

definition wide_image :: fragment where
  "wide_image = \<lparr>charFormat = example_format\<lparr>isImageFormat := True,
       image_name := ''logo.png'', image_width := 1000, image_height := 500\<rparr>,
     frag_text = []\<rparr>"

text \<open>
  A document whose only block is the text "See " followed by the green link, in a
  window of its own.
\<close>

definition see_fragment :: fragment where
  "see_fragment = \<lparr>charFormat = example_format, frag_text = ''See ''\<rparr>"

definition link_doc :: document where
  "link_doc = \<lparr>blocks = [\<lparr>alignment = AlignLeft, fragments = [see_fragment, green_link]\<rparr>],
     resources = Map.empty\<rparr>"

definition link_app :: app where
  "link_app = example_app\<lparr>doc := link_doc\<rparr>"






section \<open>Properties of the container codec\<close>

subsection \<open>The struct module round-trips\<close>

lemma f32_one_value: "f32_value f32_one = Finite 1"
  by (simp add: f32_value_def f32_one_def Let_def)

lemma length_OLC_MAGIC: "length OLC_MAGIC = 4"
  by (simp add: OLC_MAGIC_def)

lemma unpack_f_length: "unpack_f bo bs = Some v \<Longrightarrow> length bs = 4"
  by (simp add: unpack_f_def split: if_splits)

lemma unpack_Q_length: "unpack_Q bo bs = Some v \<Longrightarrow> length bs = 8"
  by (simp add: unpack_Q_def split: if_splits)

lemma le_nat_le_bytes: "le_nat (le_bytes k n) = n mod 256 ^ k"
proof (induction k arbitrary: n)
  case 0
  show ?case by simp
next
  case (Suc k)
  have "n mod 256 + 256 * (n div 256 mod 256 ^ k) = n mod (256 * 256 ^ k)"
    by (simp add: mod_mult2_eq)
  with Suc show ?case by (simp add: unat_of_nat)
qed

lemma length_le_bytes: "length (le_bytes k n) = k"
  by (induction k arbitrary: n) auto

lemma le_bytes_4:
  "le_bytes 4 n = [of_nat (n mod 256), of_nat (n div 256 mod 256),
     of_nat (n div 256 div 256 mod 256), of_nat (n div 256 div 256 div 256 mod 256)]"
proof -
  have h: "(4::nat) = Suc (Suc (Suc (Suc 0)))"
    by simp
  show ?thesis
    by (subst h) simp
qed

lemma le_bytes_8:
  "le_bytes 8 n = le_bytes 4 n @ le_bytes 4 (n div 256 div 256 div 256 div 256)"
proof -
  have h: "(8::nat) = Suc (Suc (Suc (Suc (Suc (Suc (Suc (Suc 0)))))))"
    by simp
  show ?thesis
    unfolding le_bytes_4 by (subst h) simp
qed

lemma native_native: "native bo (native bo bs) = bs"
  by (cases bo) (simp_all add: native_def)

lemma length_native: "length (native bo bs) = length bs"
  by (cases bo) (simp_all add: native_def)

lemma unpack_pack_Q: "pack_Q bo n = Some bs \<Longrightarrow> unpack_Q bo bs = Some n"
  by (auto simp: pack_Q_def unpack_Q_def native_native length_native length_le_bytes
        le_nat_le_bytes split: if_splits)

lemma unpack_pack_f: "bits < 2 ^ 32 \<Longrightarrow> unpack_f bo (pack_f bo bits) = Some bits"
  by (auto simp: pack_f_def unpack_f_def native_native length_native length_le_bytes
        le_nat_le_bytes)

lemma unpack_f_one: "unpack_f bo (pack_f bo f32_one) = Some f32_one"
  by (rule unpack_pack_f) (simp add: f32_one_def)

subsection \<open>Reading the frame\<close>

text \<open>
  C3. A file whose first four bytes are not \<^verbatim>\<open>OLC!\<close> is refused with the magic number
  \<^verbatim>\<open>ValueError\<close>, shown in the "Fichier invalide" box: the file is opened, four bytes
  are read and nothing else, and apart from that log entry the window, its document
  included, is what it was.
\<close>

theorem load_olc_bad_magic:
  assumes "fs a filename = Some content" and "take 4 content \<noteq> OLC_MAGIC"
  shows "load_olc q p filename a =
    emit [OpenRead filename, ReadBytes 4,
          Dialog (Critical FichierInvalide (ValueError (BadMagic (take 4 content))))] a"
  using assms by (simp add: load_olc_def load_olc_body_def emit_def Let_def)

theorem load_olc_bad_magic_witness:
  "fs example_app ''zip.olc'' = Some [0x50, 0x4B, 3, 4, 20]
   \<and> take 4 [0x50, 0x4B, 3, 4, 20] \<noteq> OLC_MAGIC
   \<and> load_olc example_qt example_py ''zip.olc'' example_app =
       emit [OpenRead ''zip.olc'', ReadBytes 4,
             Dialog (Critical FichierInvalide (ValueError (BadMagic [0x50, 0x4B, 3, 4])))]
         example_app
   \<and> doc (load_olc example_qt example_py ''zip.olc'' example_app) = doc example_app"
  using load_olc_bad_magic [of example_app "''zip.olc''" "[0x50, 0x4B, 3, 4, 20]"
      example_qt example_py]
  by (simp add: example_app_def OLC_MAGIC_def emit_def)

lemma load_olc_short_payload:
  assumes fl: "fs a filename = Some (OLC_MAGIC @ version_bytes @ size_bytes @ rest)"
    and ver: "unpack_f (byteorder p) version_bytes = Some v"
    and size: "unpack_Q (byteorder p) size_bytes = Some n"
    and short: "length rest < n"
  shows "load_olc q p filename a =
    emit ([OpenRead filename, ReadBytes 4, ReadBytes 4]
          @ (if float_gt (f32_value v) 1
             then [Dialog (Warning (VersionRecente (f32_value v)))] else [])
          @ [ReadBytes 8]
          @ (case read_refused p n of
               None \<Rightarrow> [ReadBytes n,
                 Dialog (Critical FichierInvalide (ValueError (ShortRead (length rest) n)))]
             | Some c \<Rightarrow> [Dialog (Critical LoadOlc (Exception c))])) a"
  using assms unpack_f_length[OF ver] unpack_Q_length[OF size]
  by (simp add: load_olc_def load_olc_body_def emit_def Let_def length_OLC_MAGIC
        split: option.splits)

lemma example_files:
  "fs example_app ''zip.olc'' = Some [0x50, 0x4B, 3, 4, 20]"
  "fs example_app ''short.olc'' =
     Some (OLC_MAGIC @ [0, 0, 0x80, 0x3F] @ [16, 0, 0, 0, 0, 0, 0, 0] @ [1, 2, 3])"
  "fs example_app ''v1.olc'' =
     Some (OLC_MAGIC @ [0, 0, 0x80, 0x3F] @ [3, 0, 0, 0, 0, 0, 0, 0] @ [1, 2, 3])"
  "fs example_app ''v2.olc'' =
     Some (OLC_MAGIC @ [0, 0, 0, 0x40] @ [3, 0, 0, 0, 0, 0, 0, 0] @ [1, 2, 3])"
  "fs example_app ''huge.olc'' =
     Some (OLC_MAGIC @ [0, 0, 0x80, 0x3F] @ [0xFF, 0xFF, 0xFF, 0xFF, 0xFF, 0xFF, 0xFF, 0xFF]
           @ [1, 2, 3])"
  by (simp_all add: example_app_def)

lemma example_byteorder: "byteorder example_py = LittleEndian"
  by (simp add: example_py_def example_py0_def)

lemma example_unpack:
  "unpack_f LittleEndian [0, 0, 0x80, 0x3F] = Some f32_one"
  "unpack_f LittleEndian [0, 0, 0, 0x40] = Some 1073741824"
  "unpack_Q LittleEndian [16, 0, 0, 0, 0, 0, 0, 0] = Some 16"
  "unpack_Q LittleEndian [3, 0, 0, 0, 0, 0, 0, 0] = Some (length [1, 2, 3 :: byte])"
  "unpack_Q LittleEndian [0xFF, 0xFF, 0xFF, 0xFF, 0xFF, 0xFF, 0xFF, 0xFF]
     = Some 18446744073709551615"
  by (simp_all add: unpack_f_def unpack_Q_def native_def f32_one_def)

lemma example_read_refused:
  "read_refused example_py 16 = None"
  "read_refused example_py (length [1, 2, 3 :: byte]) = None"
  "read_refused example_py 18446744073709551615 = Some ''OverflowError''"
  by (simp_all add: example_py_def example_py0_def)

text \<open>
  When \<^verbatim>\<open>f.read\<close> accepts the declared size, the short read is caught: the file that
  declares 16 bytes and holds 3 ends in the "Fichier invalide" box with the
  \<^verbatim>\<open>ValueError\<close> "3 octets lus au lieu de 16".
\<close>

lemma load_olc_short_file:
  "load_olc example_qt example_py ''short.olc'' example_app =
     emit [OpenRead ''short.olc'', ReadBytes 4, ReadBytes 4, ReadBytes 8, ReadBytes 16,
           Dialog (Critical FichierInvalide (ValueError (ShortRead 3 16)))] example_app"
proof -
  have ver: "unpack_f (byteorder example_py) [0, 0, 0x80, 0x3F] = Some f32_one"
    and size: "unpack_Q (byteorder example_py) [16, 0, 0, 0, 0, 0, 0, 0] = Some 16"
    unfolding example_byteorder by (rule example_unpack)+
  have short: "length [1, 2, 3 :: byte] < 16"
    by simp
  show ?thesis
    unfolding load_olc_short_payload [OF example_files(2) ver size short]
    by (simp add: f32_one_value example_read_refused numeral_3_eq_3)
qed

text \<open>
  C4. A file whose declared payload length is larger than the bytes that follow must
  fail with the truncation error. The file \<^verbatim>\<open>huge.olc\<close> has the magic, version 1.0,
  the length field \<^verbatim>\<open>FF FF FF FF FF FF FF FF\<close> (\<open>2 ^ 64 - 1\<close>) and three bytes of payload.
  On it \<^verbatim>\<open>f.read(data_size)\<close> raises \<^verbatim>\<open>OverflowError\<close>, the check
  \<^verbatim>\<open>len(compressed_data) != data_size\<close> is never reached, and the load ends in the
  "Erreur" box of the general handler with that exception, not in the "Fichier
  invalide" box with the truncation \<^verbatim>\<open>ValueError\<close>.
\<close>

theorem load_olc_huge_length:
  "fs example_app ''huge.olc'' =
     Some (OLC_MAGIC @ [0, 0, 0x80, 0x3F] @ [0xFF, 0xFF, 0xFF, 0xFF, 0xFF, 0xFF, 0xFF, 0xFF]
           @ [1, 2, 3])
   \<and> unpack_Q (byteorder example_py) [0xFF, 0xFF, 0xFF, 0xFF, 0xFF, 0xFF, 0xFF, 0xFF]
       = Some 18446744073709551615
   \<and> length [1, 2, 3 :: byte] < 18446744073709551615
   \<and> load_olc example_qt example_py ''huge.olc'' example_app =
       emit [OpenRead ''huge.olc'', ReadBytes 4, ReadBytes 4, ReadBytes 8,
             Dialog (Critical LoadOlc (Exception ''OverflowError''))] example_app"
proof -
  have ver: "unpack_f (byteorder example_py) [0, 0, 0x80, 0x3F] = Some f32_one"
    and size: "unpack_Q (byteorder example_py) [0xFF, 0xFF, 0xFF, 0xFF, 0xFF, 0xFF, 0xFF, 0xFF]
       = Some 18446744073709551615"
    unfolding example_byteorder by (rule example_unpack)+
  have short: "length [1, 2, 3 :: byte] < 18446744073709551615"
    by simp
  have "load_olc example_qt example_py ''huge.olc'' example_app =
       emit [OpenRead ''huge.olc'', ReadBytes 4, ReadBytes 4, ReadBytes 8,
             Dialog (Critical LoadOlc (Exception ''OverflowError''))] example_app"
    unfolding load_olc_short_payload [OF example_files(5) ver size short]
    by (simp add: f32_one_value example_read_refused)
  with example_files(5) size short show ?thesis
    by blast
qed

subsection \<open>Reading a snapshot\<close>

lemma add_images_typed:
  "add_images q (map (\<lambda>(k, v). (PStr k, PBytes v)) images) d =
     (None, foldl (\<lambda>d (k, v). addResource d k (loadFromData q v)) d images)"
  by (induction images arbitrary: d) auto


lemma load_olc_payload_olc_data:
  assumes gz: "gzip_decompress p payload = Inr serialized"
    and pk: "pickle_loads p serialized = Inr (olc_data q0 p0 d0)"
  shows "load_olc_payload q p n payload a =
    (None, a\<lparr>doc := setHtml q
               (snd (add_images q (map (\<lambda>(k, v). (PStr k, PBytes v)) (collect_images q0 d0)) (doc a)))
               (toHtml q0 d0),
             status := OlcLoaded n (PStr (take 10 (now_isoformat p0 0)))
                         (PInt (int (split_count False (toPlainText q0 d0))))
                         (length (collect_images q0 d0))\<rparr>)"
  using assms
  by (simp add: load_olc_payload_def olc_data_def Let_def add_images_typed)

text \<open>
  Whatever the version, a framed file goes on to the payload; a version above 1.0 only
  adds the warning to the log.
\<close>

lemma load_olc_body_framed:
  assumes fl: "fs a filename = Some (OLC_MAGIC @ version_bytes @ size_bytes @ payload @ trailing)"
    and ver: "unpack_f (byteorder p) version_bytes = Some v"
    and size: "unpack_Q (byteorder p) size_bytes = Some (length payload)"
    and acc: "read_refused p (length payload) = None"
  shows "load_olc_body q p filename a =
    load_olc_payload q p (length (OLC_MAGIC @ version_bytes @ size_bytes @ payload @ trailing)) payload
      (emit ([OpenRead filename, ReadBytes 4, ReadBytes 4]
          @ (if float_gt (f32_value v) 1 then [Dialog (Warning (VersionRecente (f32_value v)))] else [])
          @ [ReadBytes 8, ReadBytes (length payload)]) a)"
  using assms unpack_f_length[OF ver] unpack_Q_length[OF size]
  by (simp add: load_olc_body_def emit_def Let_def length_OLC_MAGIC)



lemma example_images: "collect_images example_qt example_doc = [(''logo.png'', [7, 7])]"
  by (simp add: collect_images_def collect_image_def example_doc_def example_format_def
        resource_def Let_def)

lemma example_html: "toHtml example_qt example_doc = ''Hello''"
  by (simp add: example_qt_def example_doc_def)

lemma example_plain: "toPlainText example_qt example_doc = ''Hello''"
  by (simp add: example_qt_def example_doc_def)

lemma example_words: "split_count False (toPlainText example_qt example_doc) = 1"
  by (simp add: example_plain isspace_def)

lemma example_add_images:
  "snd (add_images example_qt (map (\<lambda>(k, v). (PStr k, PBytes v)) [(''logo.png'', [7, 7])])
     example_doc) = example_doc"
  by (simp add: example_qt_def addResource_def example_doc_def)

subsection \<open>Writing and reading back\<close>

lemma collect_image_keys:
  "set (map fst (collect_image q d images fr)) =
     set (map fst images) \<union>
     (if isImageFormat (charFormat fr) \<and> resolves q d (image_name (charFormat fr))
      then {image_name (charFormat fr)} else {})"
  by (simp add: collect_image_def resolves_def Let_def AList.dom_update
        split: option.splits qimage.splits)

lemma foldl_collect_image_keys:
  "set (map fst (foldl (collect_image q d) images frs)) =
     set (map fst images) \<union>
     {image_name (charFormat fr) | fr. fr \<in> set frs \<and> isImageFormat (charFormat fr)
        \<and> resolves q d (image_name (charFormat fr))}"
proof (induction frs arbitrary: images)
  case Nil show ?case by simp
next
  case (Cons fr frs)
  show ?case unfolding foldl_Cons Cons.IH collect_image_keys by auto
qed

lemma foldl_blocks_keys:
  "set (map fst (foldl (\<lambda>images b. foldl (collect_image q d) images (fragments b)) images bs)) =
     set (map fst images) \<union>
     {image_name (charFormat fr) | fr b. b \<in> set bs \<and> fr \<in> set (fragments b)
        \<and> isImageFormat (charFormat fr) \<and> resolves q d (image_name (charFormat fr))}"
proof (induction bs arbitrary: images)
  case Nil show ?case by simp
next
  case (Cons b bs)
  show ?case unfolding foldl_Cons Cons.IH foldl_collect_image_keys by auto
qed

lemma collect_images_keys:
  "set (map fst (collect_images q d)) = set (filter (resolves q d) (image_refs d))"
  unfolding collect_images_def foldl_blocks_keys image_refs_def by auto

lemma save_as_olc_fs:
  assumes w: "writable p filename"
    and len: "pack_Q (byteorder p) (length (gzip_compress p (pickle_dumps p (olc_data q p (doc a))))) = Some size_bytes"
  shows "save_as_olc q p filename a =
     a\<lparr>fs := (fs a)(filename \<mapsto> OLC_MAGIC @ pack_f (byteorder p) f32_one @ size_bytes
                   @ gzip_compress p (pickle_dumps p (olc_data q p (doc a)))),
       log := log a @ [OpenWrite filename],
       status := OlcSaved filename (length (OLC_MAGIC @ pack_f (byteorder p) f32_one @ size_bytes
                   @ gzip_compress p (pickle_dumps p (olc_data q p (doc a)))))\<rparr>"
  using assms by (simp add: save_as_olc_def save_as_olc_body_def Let_def emit_def)

text \<open>
  C1. When gzip and pickle give back what they were given, the payload length fits the
  8-byte field and \<^verbatim>\<open>f.read\<close> accepts it, and every image reference of the document
  resolves to an image that is not null (as the data model asks of a Document Model):
  \<^verbatim>\<open>save_as_olc\<close> writes the magic, version 1.0, the length and the compressed pickle of
  the snapshot; loading that file sets the document to \<^verbatim>\<open>setHtml\<close> of the saved
  \<^verbatim>\<open>toHtml\<close> string (the plain-text entry plays no part), on the document's resources
  with the snapshot's images added back; and the keys of the snapshot's \<^verbatim>\<open>images\<close>
  entry are exactly the image names referenced by the fragments of the document.
\<close>

theorem olc_round_trip:
  assumes w: "writable p filename"
    and len: "length (gzip_compress p (pickle_dumps p (olc_data q p (doc a)))) < 2 ^ 64"
    and acc: "read_refused p (length (gzip_compress p (pickle_dumps p (olc_data q p (doc a)))))
               = None"
    and gz: "gzip_decompress p (gzip_compress p (pickle_dumps p (olc_data q p (doc a))))
               = Inr (pickle_dumps p (olc_data q p (doc a)))"
    and pk: "pickle_loads p (pickle_dumps p (olc_data q p (doc a))) = Inr (olc_data q p (doc a))"
    and res: "list_all (resolves q (doc a)) (image_refs (doc a))"
  shows "fs (save_as_olc q p filename a) filename =
           Some (OLC_MAGIC @ pack_f (byteorder p) f32_one
                 @ the (pack_Q (byteorder p)
                     (length (gzip_compress p (pickle_dumps p (olc_data q p (doc a))))))
                 @ gzip_compress p (pickle_dumps p (olc_data q p (doc a))))
       \<and> doc (load_olc q p filename (save_as_olc q p filename a)) =
           setHtml q
             (snd (add_images q (map (\<lambda>(k, v). (PStr k, PBytes v)) (collect_images q (doc a))) (doc a)))
             (toHtml q (doc a))
       \<and> py_get (olc_data q p (doc a)) ''images'' PNone =
           Inr (PDict (map (\<lambda>(k, v). (PStr k, PBytes v)) (collect_images q (doc a))))
       \<and> set (map fst (collect_images q (doc a))) = set (image_refs (doc a))"
proof -
  let ?c = "gzip_compress p (pickle_dumps p (olc_data q p (doc a)))"
  obtain size_bytes where sb: "pack_Q (byteorder p) (length ?c) = Some size_bytes"
    using len by (simp add: pack_Q_def)
  let ?a = "save_as_olc q p filename a"
  have fl: "fs ?a filename = Some (OLC_MAGIC @ pack_f (byteorder p) f32_one @ size_bytes @ ?c @ [])"
    and d: "doc ?a = doc a"
    by (simp_all add: save_as_olc_fs[OF w sb])
  have body: "load_olc_body q p filename ?a =
    load_olc_payload q p (length (OLC_MAGIC @ pack_f (byteorder p) f32_one @ size_bytes @ ?c @ [])) ?c
      (emit ([OpenRead filename, ReadBytes 4, ReadBytes 4]
          @ (if float_gt (f32_value f32_one) 1 then [Dialog (Warning (VersionRecente (f32_value f32_one)))] else [])
          @ [ReadBytes 8, ReadBytes (length ?c)]) ?a)"
    by (rule load_olc_body_framed[OF fl unpack_f_one unpack_pack_Q[OF sb] acc])
  have r0: "fs ?a filename =
           Some (OLC_MAGIC @ pack_f (byteorder p) f32_one
                 @ the (pack_Q (byteorder p) (length ?c)) @ ?c)"
    using fl by (simp add: sb)
  have r1: "doc (load_olc q p filename ?a) =
           setHtml q
             (snd (add_images q (map (\<lambda>(k, v). (PStr k, PBytes v)) (collect_images q (doc a))) (doc a)))
             (toHtml q (doc a))"
    by (simp add: load_olc_def body load_olc_payload_olc_data[OF gz pk] emit_def d)
  have r2: "py_get (olc_data q p (doc a)) ''images'' PNone =
           Inr (PDict (map (\<lambda>(k, v). (PStr k, PBytes v)) (collect_images q (doc a))))"
    by (simp add: olc_data_def Let_def)
  have "filter (resolves q (doc a)) (image_refs (doc a)) = image_refs (doc a)"
    using res by (simp add: list_all_iff)
  then have r3: "set (map fst (collect_images q (doc a))) = set (image_refs (doc a))"
    using collect_images_keys[of q "doc a"] by simp
  show ?thesis
    using r0 r1 r2 r3 by blast
qed

lemma example_olc_data:
  "olc_data example_qt example_py d = olc_data example_qt example_py0 d"
  by (simp add: olc_data_def example_py_def)

lemma example_image_refs: "image_refs example_doc = [''logo.png'']"
  by (simp add: image_refs_def example_doc_def example_format_def)

lemma example_resolves: "resolves example_qt example_doc ''logo.png''"
  by (simp add: resolves_def resource_def example_doc_def)

theorem olc_round_trip_witness:
  "writable example_py ''out.olc''
   \<and> length (gzip_compress example_py (pickle_dumps example_py
         (olc_data example_qt example_py (doc example_app)))) < 2 ^ 64
   \<and> read_refused example_py (length (gzip_compress example_py (pickle_dumps example_py
         (olc_data example_qt example_py (doc example_app))))) = None
   \<and> gzip_decompress example_py (gzip_compress example_py (pickle_dumps example_py
         (olc_data example_qt example_py (doc example_app))))
       = Inr (pickle_dumps example_py (olc_data example_qt example_py (doc example_app)))
   \<and> pickle_loads example_py (pickle_dumps example_py
         (olc_data example_qt example_py (doc example_app)))
       = Inr (olc_data example_qt example_py (doc example_app))
   \<and> list_all (resolves example_qt (doc example_app)) (image_refs (doc example_app))
   \<and> fs (save_as_olc example_qt example_py ''out.olc'' example_app) ''out.olc'' =
       Some (OLC_MAGIC @ [0, 0, 0x80, 0x3F] @ [3, 0, 0, 0, 0, 0, 0, 0] @ [1, 2, 3])
   \<and> doc (load_olc example_qt example_py ''out.olc''
          (save_as_olc example_qt example_py ''out.olc'' example_app)) =
       \<lparr>blocks = [\<lparr>alignment = AlignLeft,
                    fragments = [\<lparr>charFormat = example_format, frag_text = ''Hello''\<rparr>]\<rparr>],
        resources = [''logo.png'' \<mapsto> Image [7, 7]]\<rparr>
   \<and> set (map fst (collect_images example_qt (doc example_app))) = {''logo.png''}
   \<and> set (image_refs (doc example_app)) = {''logo.png''}"
proof -
  have w: "writable example_py ''out.olc''"
    by (simp add: example_py_def example_py0_def)
  have c: "gzip_compress example_py (pickle_dumps example_py
         (olc_data example_qt example_py (doc example_app))) = [1, 2, 3]"
    by (simp add: example_py_def example_py0_def)
  have len: "length (gzip_compress example_py (pickle_dumps example_py
         (olc_data example_qt example_py (doc example_app)))) < 2 ^ 64"
    unfolding c by simp
  have acc: "read_refused example_py (length (gzip_compress example_py (pickle_dumps example_py
         (olc_data example_qt example_py (doc example_app))))) = None"
    unfolding c by (rule example_read_refused)
  have gz: "gzip_decompress example_py (gzip_compress example_py (pickle_dumps example_py
         (olc_data example_qt example_py (doc example_app))))
       = Inr (pickle_dumps example_py (olc_data example_qt example_py (doc example_app)))"
    by (simp add: example_py_def example_py0_def)
  have d: "doc example_app = example_doc"
    by (simp add: example_app_def)
  have pk: "pickle_loads example_py (pickle_dumps example_py
         (olc_data example_qt example_py (doc example_app)))
       = Inr (olc_data example_qt example_py (doc example_app))"
    unfolding example_olc_data d by (simp add: example_py_def)
  have res: "list_all (resolves example_qt (doc example_app)) (image_refs (doc example_app))"
    unfolding d example_image_refs by (simp add: example_resolves)
  have sh: "setHtml example_qt example_doc ''Hello'' =
      \<lparr>blocks = [\<lparr>alignment = AlignLeft,
                    fragments = [\<lparr>charFormat = example_format, frag_text = ''Hello''\<rparr>]\<rparr>],
                 resources = [''logo.png'' \<mapsto> Image [7, 7]]\<rparr>"
    by (simp add: example_qt_def example_doc_def)
  have hdr: "pack_f (byteorder example_py) f32_one = [0, 0, 0x80, 0x3F]"
    "the (pack_Q (byteorder example_py) (length [1, 2, 3 :: byte])) = [3, 0, 0, 0, 0, 0, 0, 0]"
    by (simp_all add: example_byteorder pack_f_def pack_Q_def native_def f32_one_def
          le_bytes_4 le_bytes_8)
  note inst = olc_round_trip [OF w len acc gz pk res]
  have r0: "fs (save_as_olc example_qt example_py ''out.olc'' example_app) ''out.olc'' =
       Some (OLC_MAGIC @ [0, 0, 0x80, 0x3F] @ [3, 0, 0, 0, 0, 0, 0, 0] @ [1, 2, 3])"
    using inst unfolding c hdr by blast
  have r1: "doc (load_olc example_qt example_py ''out.olc''
          (save_as_olc example_qt example_py ''out.olc'' example_app)) =
       \<lparr>blocks = [\<lparr>alignment = AlignLeft,
                    fragments = [\<lparr>charFormat = example_format, frag_text = ''Hello''\<rparr>]\<rparr>],
        resources = [''logo.png'' \<mapsto> Image [7, 7]]\<rparr>"
    using inst unfolding d example_images example_add_images example_html sh by blast
  have r3: "set (image_refs (doc example_app)) = {''logo.png''}"
    unfolding d example_image_refs by simp
  have r2: "set (map fst (collect_images example_qt (doc example_app))) = {''logo.png''}"
    using inst r3 by simp
  show ?thesis
    using w len acc gz pk res r0 r1 r2 r3 by blast
qed

section \<open>Properties of the exporters\<close>

lemma save_as_docx_unavailable:
  "\<not> DOCX_AVAILABLE L \<Longrightarrow>
     save_as_docx L q p filename a = emit [Dialog (Warning (ModuleManquant ''python-docx''))] a"
  by (simp add: save_as_docx_def)

text \<open>
  C7. With python-docx missing, \<^verbatim>\<open>save_as_docx\<close> shows the "Module manquant" warning and
  returns before any file is opened; \<^verbatim>\<open>save_to_file\<close> then goes on as after a
  successful save: on the window of the example it sets the current file, clears the
  modified flag, shows "Fichier enregistre" and returns \<^verbatim>\<open>True\<close>, and no file
  \<^verbatim>\<open>notes.docx\<close> exists.
\<close>

theorem save_to_file_docx_unavailable:
  "save_to_file (example_docx\<lparr>DOCX_AVAILABLE := False\<rparr>) example_odf example_qt example_py
     ''notes.docx'' example_app =
   (True, example_app\<lparr>current_file := Some ''notes.docx'', is_modified := False,
            window_title := ''OpenLautrec - notes.docx'', status := FileSaved ''notes.docx'',
            log := [Dialog (Warning (ModuleManquant ''python-docx''))]\<rparr>)"
  by (simp add: save_to_file_def endswith_def basename_def save_as_docx_def emit_def
        example_app_def)

subsection \<open>The word-processor exporter\<close>

lemma link_fragment_docx:
  assumes "\<not> isImageFormat (charFormat fr)" and "anchorHref (charFormat fr) \<noteq> []"
  shows "save_docx_fragment L q d para fr =
     para\<lparr>par_elems := par_elems para @
        [Run (link_run fr),
         Hyperlink (anchorHref (charFormat fr)) ''0000FF'' ''single'' (frag_text fr)]\<rparr>"
  using assms by (simp add: save_docx_fragment_def Let_def add_hyperlink_def add_elem_def)

lemma image_fragment_docx:
  assumes "isImageFormat (charFormat fr)"
    and "resource q d (image_name (charFormat fr)) = Some (Image png)"
    and "add_picture_ok L png"
  shows "save_docx_fragment L q d para fr =
     para\<lparr>par_elems := par_elems para @
       [if image_width (charFormat fr) / 96 > 6
        then Picture png 6 (image_height (charFormat fr) / 96 * (6 / (image_width (charFormat fr) / 96)))
        else Picture png (image_width (charFormat fr) / 96) (image_height (charFormat fr) / 96)]\<rparr>"
  using assms by (simp add: save_docx_fragment_def Let_def add_elem_def)

lemma save_docx_fragment_append:
  "save_docx_fragment L q d para fr =
     para\<lparr>par_elems := par_elems para @ docx_fragment_elems L q d fr\<rparr>"
  by (simp add: docx_fragment_elems_def save_docx_fragment_def Let_def add_elem_def
        add_hyperlink_def split: option.splits qimage.splits)

lemma foldl_save_docx_fragment:
  "foldl (save_docx_fragment L q d) para frs =
     para\<lparr>par_elems := par_elems para @ concat (map (docx_fragment_elems L q d) frs)\<rparr>"
proof (induction frs arbitrary: para)
  case Nil
  show ?case by simp
next
  case (Cons fr frs)
  have "foldl (save_docx_fragment L q d) para (fr # frs) =
        foldl (save_docx_fragment L q d) (save_docx_fragment L q d para fr) frs"
    by simp
  also have "\<dots> = (save_docx_fragment L q d para fr)\<lparr>par_elems :=
        par_elems (save_docx_fragment L q d para fr) @
        concat (map (docx_fragment_elems L q d) frs)\<rparr>"
    by (rule Cons.IH)
  also have "\<dots> = para\<lparr>par_elems := par_elems para @
        concat (map (docx_fragment_elems L q d) (fr # frs))\<rparr>"
    by (simp add: save_docx_fragment_append[of L q d para fr])
  finally show ?case .
qed

lemma save_docx_block_elems:
  "save_docx_block L q d b =
     \<lparr>par_alignment = Some (docx_alignment (alignment b)),
      par_elems = concat (map (docx_fragment_elems L q d) (fragments b))\<rparr>"
  by (simp add: save_docx_block_def foldl_save_docx_fragment)

lemma docx_link_elems:
  assumes "\<not> isImageFormat (charFormat fr)" and "anchorHref (charFormat fr) \<noteq> []"
  shows "docx_fragment_elems L q d fr =
     [Run (link_run fr),
      Hyperlink (anchorHref (charFormat fr)) ''0000FF'' ''single'' (frag_text fr)]"
  by (simp add: docx_fragment_elems_def link_fragment_docx[OF assms])

lemma docx_export_link:
  assumes "i < length (blocks d)" and "fragments (blocks d ! i) = xs @ fr # ys"
    and "\<not> isImageFormat (charFormat fr)" and "anchorHref (charFormat fr) \<noteq> []"
  shows "par_elems (docx_export L q d ! i) =
     concat (map (docx_fragment_elems L q d) xs) @
     [Run (link_run fr),
      Hyperlink (anchorHref (charFormat fr)) ''0000FF'' ''single'' (frag_text fr)] @
     concat (map (docx_fragment_elems L q d) ys)"
  using assms(1,2) by (simp add: docx_export_def save_docx_block_elems docx_link_elems[OF assms(3,4)])

lemma save_as_docx_writes:
  assumes "DOCX_AVAILABLE L" and "Document_save L (docx_export L q (doc a)) = Inr data"
    and "writable p filename"
  shows "fs (save_as_docx L q p filename a) filename = Some data"
  using assms by (simp add: save_as_docx_def emit_def)

lemma link_run_foreground:
  "link_run (fr\<lparr>charFormat := (charFormat fr)\<lparr>foreground := c\<rparr>\<rparr>) = link_run fr"
  by (simp add: link_run_def Let_def)

lemma resource_blocks: "resource q (d\<lparr>blocks := bs\<rparr>) name = resource q d name"
  by (simp add: resource_def)

lemma docx_fragment_elems_blocks:
  "docx_fragment_elems L q (d\<lparr>blocks := bs\<rparr>) = docx_fragment_elems L q d"
  by (rule ext) (simp add: docx_fragment_elems_def save_docx_fragment_def resource_blocks Let_def)

lemma save_docx_block_blocks:
  "save_docx_block L q (d\<lparr>blocks := bs\<rparr>) = save_docx_block L q d"
  by (rule ext) (simp add: save_docx_block_elems docx_fragment_elems_blocks)

lemma docx_export_foreground:
  assumes "fragments (blocks d ! i) = xs @ fr # ys"
    and "\<not> isImageFormat (charFormat fr)" and "anchorHref (charFormat fr) \<noteq> []"
  shows "docx_export L q (d\<lparr>blocks := (blocks d)[i := (blocks d ! i)\<lparr>fragments :=
            xs @ fr\<lparr>charFormat := (charFormat fr)\<lparr>foreground := c\<rparr>\<rparr> # ys\<rparr>]\<rparr>)
         = docx_export L q d"
proof -
  let ?fr = "fr\<lparr>charFormat := (charFormat fr)\<lparr>foreground := c\<rparr>\<rparr>"
  let ?b = "(blocks d ! i)\<lparr>fragments := xs @ ?fr # ys\<rparr>"
  have a': "\<not> isImageFormat (charFormat ?fr)" "anchorHref (charFormat ?fr) \<noteq> []"
    using assms(2,3) by simp_all
  have e: "docx_fragment_elems L q d ?fr = docx_fragment_elems L q d fr"
    unfolding docx_link_elems[OF a'] docx_link_elems[OF assms(2,3)] link_run_foreground
    by simp
  have b: "save_docx_block L q d ?b = save_docx_block L q d (blocks d ! i)"
    by (simp add: save_docx_block_elems assms(1) e)
  have "map (save_docx_block L q d) ((blocks d)[i := ?b]) =
        map (save_docx_block L q d) ((blocks d)[i := blocks d ! i])"
    by (simp add: map_update b del: list_update_id)
  then show ?thesis
    by (simp add: docx_export_def save_docx_block_blocks)
qed

subsection \<open>The office-suite exporter\<close>

lemma link_fragment_odt:
  assumes "\<not> isImageFormat (charFormat fr)" and "anchorHref (charFormat fr) \<noteq> []"
  shows "save_odt_fragment q p d st fr =
     st\<lparr>odt_doc := (odt_doc st)\<lparr>automaticstyles := automaticstyles (odt_doc st) @
            [\<lparr>style_prefix = ''link_'', style_id = object_id p (block_no st) (fragment_no st),
              style_props = link_props (charFormat fr)\<rparr>]\<rparr>,
        odt_p := odt_p st @
          [Link (anchorHref (charFormat fr))
             (''link_'', object_id p (block_no st) (fragment_no st))
             (frag_text fr)],
        fragment_no := fragment_no st + 1\<rparr>"
  using assms by (simp add: save_odt_fragment_def Let_def add_span_def name_of_style_def)

lemma image_fragment_odt:
  assumes "isImageFormat (charFormat fr)"
    and "resource q d (image_name (charFormat fr)) = Some (Image png)"
  shows "save_odt_fragment q p d st fr =
     st\<lparr>image_counter := image_counter st + 1,
        odt_doc := (odt_doc st)\<lparr>pictures := pictures (odt_doc st) @ [(image_counter st + 1, png)]\<rparr>,
        odt_p := odt_p st @
          [Frame (image_width (charFormat fr) / 96) (image_height (charFormat fr) / 96)
             ''as-char'' (image_counter st + 1)],
        fragment_no := fragment_no st + 1\<rparr>"
  using assms by (simp add: save_odt_fragment_def Let_def)

lemma plain_fragment_odt:
  assumes "\<not> isImageFormat (charFormat fr)" and "\<not> isAnchor (charFormat fr)"
    and "anchorHref (charFormat fr) = []"
  shows "save_odt_fragment q p d st fr =
     st\<lparr>odt_doc := (odt_doc st)\<lparr>automaticstyles := automaticstyles (odt_doc st) @
            [\<lparr>style_prefix = ''style_'', style_id = object_id p (block_no st) (fragment_no st),
              style_props = span_props (charFormat fr)\<rparr>]\<rparr>,
        odt_p := odt_p st @
          [Span (''style_'', object_id p (block_no st) (fragment_no st)) (frag_text fr)],
        fragment_no := fragment_no st + 1\<rparr>"
  using assms by (simp add: save_odt_fragment_def Let_def add_span_def name_of_style_def)

lemma link_props_blue: "blue_underlined (link_props cf)"
  by (simp add: blue_underlined_def link_props_def Let_def TextProperties_def)

lemma link_props_foreground: "link_props (cf\<lparr>foreground := c\<rparr>) = link_props cf"
  by (simp add: link_props_def Let_def)

lemma save_odt_fragment_body:
  "body (odt_doc (save_odt_fragment q p d st fr)) = body (odt_doc st)"
  by (simp add: save_odt_fragment_def Let_def add_span_def split: option.splits qimage.splits)

lemma save_odt_fragment_p:
  "\<exists>es. odt_p (save_odt_fragment q p d st fr) = odt_p st @ es"
  by (simp add: save_odt_fragment_def Let_def add_span_def split: option.splits qimage.splits)

lemma save_odt_fragment_styles:
  "\<exists>ss. automaticstyles (odt_doc (save_odt_fragment q p d st fr)) =
           automaticstyles (odt_doc st) @ ss
        \<and> (\<forall>s\<in>set ss. style_prefix s = ''link_'' \<longrightarrow> blue_underlined (style_props s))"
  by (simp add: save_odt_fragment_def Let_def add_span_def link_props_blue
        split: option.splits qimage.splits)

lemma foldl_save_odt_fragment_body:
  "body (odt_doc (foldl (save_odt_fragment q p d) st frs)) = body (odt_doc st)"
  by (induction frs arbitrary: st) (simp_all add: save_odt_fragment_body)

lemma foldl_save_odt_fragment_p:
  "\<exists>es. odt_p (foldl (save_odt_fragment q p d) st frs) = odt_p st @ es"
proof (induction frs arbitrary: st)
  case Nil
  show ?case by simp
next
  case (Cons fr frs)
  obtain es where a: "odt_p (save_odt_fragment q p d st fr) = odt_p st @ es"
    using save_odt_fragment_p by blast
  obtain es' where b: "odt_p (foldl (save_odt_fragment q p d) (save_odt_fragment q p d st fr) frs)
      = odt_p (save_odt_fragment q p d st fr) @ es'"
    using Cons.IH by blast
  show ?case by (simp add: a b)
qed

lemma foldl_save_odt_fragment_styles:
  "\<exists>ss. automaticstyles (odt_doc (foldl (save_odt_fragment q p d) st frs)) =
           automaticstyles (odt_doc st) @ ss
        \<and> (\<forall>s\<in>set ss. style_prefix s = ''link_'' \<longrightarrow> blue_underlined (style_props s))"
proof (induction frs arbitrary: st)
  case Nil
  show ?case by simp
next
  case (Cons fr frs)
  obtain ss where a: "automaticstyles (odt_doc (save_odt_fragment q p d st fr)) =
           automaticstyles (odt_doc st) @ ss"
    and a': "\<forall>s\<in>set ss. style_prefix s = ''link_'' \<longrightarrow> blue_underlined (style_props s)"
    using save_odt_fragment_styles by blast
  obtain ss' where b: "automaticstyles (odt_doc (foldl (save_odt_fragment q p d)
          (save_odt_fragment q p d st fr) frs)) =
           automaticstyles (odt_doc (save_odt_fragment q p d st fr)) @ ss'"
    and b': "\<forall>s\<in>set ss'. style_prefix s = ''link_'' \<longrightarrow> blue_underlined (style_props s)"
    using Cons.IH by blast
  have "automaticstyles (odt_doc (foldl (save_odt_fragment q p d) st (fr # frs))) =
          automaticstyles (odt_doc st) @ (ss @ ss')"
    by (simp add: a b)
  moreover have "\<forall>s\<in>set (ss @ ss'). style_prefix s = ''link_'' \<longrightarrow> blue_underlined (style_props s)"
    using a' b' by auto
  ultimately show ?case by blast
qed

lemma foldl_save_odt_fragment_link:
  assumes "\<not> isImageFormat (charFormat fr)" and "anchorHref (charFormat fr) \<noteq> []"
  shows "\<exists>pre post n.
      odt_p (foldl (save_odt_fragment q p d) st (xs @ fr # ys)) =
        odt_p st @ pre @ [Link (anchorHref (charFormat fr)) (''link_'', n) (frag_text fr)] @ post
    \<and> (\<exists>s\<in>set (automaticstyles (odt_doc (foldl (save_odt_fragment q p d) st (xs @ fr # ys)))).
          name_of_style s = (''link_'', n))"
proof -
  let ?step = "save_odt_fragment q p d"
  let ?s1 = "foldl ?step st xs"
  let ?n = "object_id p (block_no ?s1) (fragment_no ?s1)"
  let ?sty = "\<lparr>style_prefix = ''link_'', style_id = ?n,
                style_props = link_props (charFormat fr)\<rparr>"
  let ?s2 = "?step ?s1 fr"
  obtain pre where pre: "odt_p ?s1 = odt_p st @ pre"
    using foldl_save_odt_fragment_p by blast
  have p2: "odt_p ?s2 = odt_p ?s1 @ [Link (anchorHref (charFormat fr)) (''link_'', ?n) (frag_text fr)]"
    by (simp add: link_fragment_odt[OF assms])
  have s2: "automaticstyles (odt_doc ?s2) = automaticstyles (odt_doc ?s1) @ [?sty]"
    by (simp add: link_fragment_odt[OF assms])
  obtain post where post: "odt_p (foldl ?step ?s2 ys) = odt_p ?s2 @ post"
    using foldl_save_odt_fragment_p by blast
  obtain ss where ss: "automaticstyles (odt_doc (foldl ?step ?s2 ys)) =
      automaticstyles (odt_doc ?s2) @ ss"
    using foldl_save_odt_fragment_styles by blast
  have f: "foldl ?step st (xs @ fr # ys) = foldl ?step ?s2 ys"
    by simp
  have r1: "odt_p (foldl ?step st (xs @ fr # ys)) =
        odt_p st @ pre @ [Link (anchorHref (charFormat fr)) (''link_'', ?n) (frag_text fr)] @ post"
    unfolding f post p2 pre by simp
  have "?sty \<in> set (automaticstyles (odt_doc (foldl ?step st (xs @ fr # ys))))"
    unfolding f ss s2 by simp
  moreover have "name_of_style ?sty = (''link_'', ?n)"
    by (simp add: name_of_style_def)
  ultimately have r2: "\<exists>s\<in>set (automaticstyles (odt_doc (foldl ?step st (xs @ fr # ys)))).
          name_of_style s = (''link_'', ?n)"
    by blast
  from r1 r2 show ?thesis by blast
qed

lemma save_odt_block_body:
  "body (odt_doc (save_odt_block q p d st b)) =
     body (odt_doc st) @
       [odt_p (foldl (save_odt_fragment q p d) (st\<lparr>odt_p := [], fragment_no := 0\<rparr>) (fragments b))]"
  by (simp add: save_odt_block_def Let_def foldl_save_odt_fragment_body)

lemma save_odt_block_styles_eq:
  "automaticstyles (odt_doc (save_odt_block q p d st b)) =
     automaticstyles (odt_doc (foldl (save_odt_fragment q p d)
        (st\<lparr>odt_p := [], fragment_no := 0\<rparr>) (fragments b)))"
  by (simp add: save_odt_block_def Let_def)

lemma save_odt_block_styles:
  "\<exists>ss. automaticstyles (odt_doc (save_odt_block q p d st b)) =
           automaticstyles (odt_doc st) @ ss
        \<and> (\<forall>s\<in>set ss. style_prefix s = ''link_'' \<longrightarrow> blue_underlined (style_props s))"
  using foldl_save_odt_fragment_styles[of q p d "st\<lparr>odt_p := [], fragment_no := 0\<rparr>" "fragments b"]
  by (simp add: save_odt_block_styles_eq)

lemma foldl_save_odt_block_body:
  "\<exists>ps. body (odt_doc (foldl (save_odt_block q p d) st bs)) = body (odt_doc st) @ ps"
proof (induction bs arbitrary: st)
  case Nil
  show ?case by simp
next
  case (Cons b bs)
  obtain ps where "body (odt_doc (foldl (save_odt_block q p d) (save_odt_block q p d st b) bs)) =
      body (odt_doc (save_odt_block q p d st b)) @ ps"
    using Cons.IH by blast
  then show ?case by (simp add: save_odt_block_body)
qed

lemma foldl_save_odt_block_styles:
  "\<exists>ss. automaticstyles (odt_doc (foldl (save_odt_block q p d) st bs)) =
           automaticstyles (odt_doc st) @ ss
        \<and> (\<forall>s\<in>set ss. style_prefix s = ''link_'' \<longrightarrow> blue_underlined (style_props s))"
proof (induction bs arbitrary: st)
  case Nil
  show ?case by simp
next
  case (Cons b bs)
  obtain ss where a: "automaticstyles (odt_doc (save_odt_block q p d st b)) =
           automaticstyles (odt_doc st) @ ss"
    and a': "\<forall>s\<in>set ss. style_prefix s = ''link_'' \<longrightarrow> blue_underlined (style_props s)"
    using save_odt_block_styles by blast
  obtain ss' where b: "automaticstyles (odt_doc (foldl (save_odt_block q p d)
          (save_odt_block q p d st b) bs)) =
           automaticstyles (odt_doc (save_odt_block q p d st b)) @ ss'"
    and b': "\<forall>s\<in>set ss'. style_prefix s = ''link_'' \<longrightarrow> blue_underlined (style_props s)"
    using Cons.IH by blast
  have "automaticstyles (odt_doc (foldl (save_odt_block q p d) st (b # bs))) =
          automaticstyles (odt_doc st) @ (ss @ ss')"
    by (simp add: a b)
  moreover have "\<forall>s\<in>set (ss @ ss'). style_prefix s = ''link_'' \<longrightarrow> blue_underlined (style_props s)"
    using a' b' by auto
  ultimately show ?case by blast
qed

lemma foldl_save_odt_block_link:
  assumes "i < length bs" and "fragments (bs ! i) = xs @ fr # ys"
    and "\<not> isImageFormat (charFormat fr)" and "anchorHref (charFormat fr) \<noteq> []"
  shows "\<exists>pre post n.
      body (odt_doc (foldl (save_odt_block q p d) st bs)) ! (length (body (odt_doc st)) + i) =
        pre @ [Link (anchorHref (charFormat fr)) (''link_'', n) (frag_text fr)] @ post
    \<and> (\<exists>s\<in>set (automaticstyles (odt_doc (foldl (save_odt_block q p d) st bs))).
          name_of_style s = (''link_'', n))"
  using assms(1,2)
proof (induction bs arbitrary: st i)
  case Nil
  then show ?case by simp
next
  case (Cons b bs)
  let ?blk = "save_odt_block q p d"
  let ?st' = "?blk st b"
  let ?st0 = "st\<lparr>odt_p := [], fragment_no := 0\<rparr>"
  let ?k = "length (body (odt_doc st))"
  show ?case
  proof (cases i)
    case 0
    then have fb: "fragments b = xs @ fr # ys"
      using Cons.prems(2) by simp
    obtain pre post n where
      pp: "odt_p (foldl (save_odt_fragment q p d) ?st0 (xs @ fr # ys)) =
        odt_p ?st0 @ pre @ [Link (anchorHref (charFormat fr)) (''link_'', n) (frag_text fr)] @ post"
      and sty: "\<exists>s\<in>set (automaticstyles (odt_doc (foldl (save_odt_fragment q p d) ?st0 (xs @ fr # ys)))).
          name_of_style s = (''link_'', n)"
      using foldl_save_odt_fragment_link[OF assms(3,4), of q p d ?st0 xs ys] by blast
    have bd: "body (odt_doc ?st') = body (odt_doc st) @
        [pre @ [Link (anchorHref (charFormat fr)) (''link_'', n) (frag_text fr)] @ post]"
      unfolding save_odt_block_body fb pp by simp
    obtain ps where ps: "body (odt_doc (foldl ?blk ?st' bs)) = body (odt_doc ?st') @ ps"
      using foldl_save_odt_block_body by blast
    obtain ss where ss: "automaticstyles (odt_doc (foldl ?blk ?st' bs)) =
        automaticstyles (odt_doc ?st') @ ss"
      using foldl_save_odt_block_styles by blast
    have r1: "body (odt_doc (foldl ?blk st (b # bs))) ! (?k + i) =
        pre @ [Link (anchorHref (charFormat fr)) (''link_'', n) (frag_text fr)] @ post"
      using 0 by (simp add: ps bd nth_append)
    have r2: "\<exists>s\<in>set (automaticstyles (odt_doc (foldl ?blk st (b # bs)))).
          name_of_style s = (''link_'', n)"
      using sty by (auto simp add: ss save_odt_block_styles_eq fb)
    from r1 r2 show ?thesis by blast
  next
    case (Suc j)
    then have j: "j < length bs" and fj: "fragments (bs ! j) = xs @ fr # ys"
      using Cons.prems by simp_all
    have len: "length (body (odt_doc ?st')) + j = ?k + i"
      using Suc by (simp add: save_odt_block_body)
    show ?thesis
      using Cons.IH[OF j fj, of ?st'] unfolding len by simp
  qed
qed

lemma odt_export_link:
  assumes "i < length (blocks d)" and "fragments (blocks d ! i) = xs @ fr # ys"
    and "\<not> isImageFormat (charFormat fr)" and "anchorHref (charFormat fr) \<noteq> []"
  shows "\<exists>pre post n.
      body (odt_export q p d) ! i =
        pre @ [Link (anchorHref (charFormat fr)) (''link_'', n) (frag_text fr)] @ post
    \<and> (\<exists>s\<in>set (automaticstyles (odt_export q p d)). name_of_style s = (''link_'', n))"
  using foldl_save_odt_block_link[OF assms, of q p d OpenDocumentText]
  by (simp add: odt_export_def OpenDocumentText_def)

lemma odt_export_link_styles:
  "\<forall>s\<in>set (automaticstyles (odt_export q p d)).
      style_prefix s = ''link_'' \<longrightarrow> blue_underlined (style_props s)"
  using foldl_save_odt_block_styles[of q p d OpenDocumentText "blocks d"]
  by (auto simp add: odt_export_def OpenDocumentText_def)

lemma save_as_odt_writes:
  assumes "ODT_AVAILABLE M" and "odt_save M (odt_export q p (doc a)) = Inr data"
    and "writable p filename"
  shows "fs (save_as_odt M q p filename a) filename = Some data"
  using assms by (simp add: save_as_odt_def emit_def)

lemma save_odt_fragment_blocks:
  "save_odt_fragment q p (d\<lparr>blocks := bs\<rparr>) = save_odt_fragment q p d"
  by (rule ext, rule ext) (simp add: save_odt_fragment_def resource_blocks Let_def)

lemma save_odt_block_blocks:
  "save_odt_block q p (d\<lparr>blocks := bs\<rparr>) = save_odt_block q p d"
  by (rule ext, rule ext) (simp add: save_odt_block_def save_odt_fragment_blocks)

lemma odt_export_foreground:
  assumes "i < length (blocks d)" and "fragments (blocks d ! i) = xs @ fr # ys"
    and "\<not> isImageFormat (charFormat fr)" and "anchorHref (charFormat fr) \<noteq> []"
  shows "odt_export q p (d\<lparr>blocks := (blocks d)[i := (blocks d ! i)\<lparr>fragments :=
            xs @ fr\<lparr>charFormat := (charFormat fr)\<lparr>foreground := c\<rparr>\<rparr> # ys\<rparr>]\<rparr>)
         = odt_export q p d"
proof -
  let ?fr = "fr\<lparr>charFormat := (charFormat fr)\<lparr>foreground := c\<rparr>\<rparr>"
  let ?b = "(blocks d ! i)\<lparr>fragments := xs @ ?fr # ys\<rparr>"
  let ?blk = "save_odt_block q p d"
  have a': "\<not> isImageFormat (charFormat ?fr)" "anchorHref (charFormat ?fr) \<noteq> []"
    using assms(3,4) by simp_all
  have e: "save_odt_fragment q p d st ?fr = save_odt_fragment q p d st fr" for st
    unfolding link_fragment_odt[OF a'] link_fragment_odt[OF assms(3,4)]
    by (simp add: link_props_foreground)
  have b: "?blk st ?b = ?blk st (blocks d ! i)" for st
    by (simp add: save_odt_block_def assms(2) e)
  have u: "(blocks d)[i := ?b] = take i (blocks d) @ ?b # drop (Suc i) (blocks d)"
    using assms(1) by (rule upd_conv_take_nth_drop)
  have v: "blocks d = take i (blocks d) @ (blocks d ! i) # drop (Suc i) (blocks d)"
    using assms(1) by (rule id_take_nth_drop)
  have "foldl ?blk OpenDocumentText ((blocks d)[i := ?b]) =
        foldl ?blk OpenDocumentText (take i (blocks d) @ (blocks d ! i) # drop (Suc i) (blocks d))"
    unfolding u by (simp add: b)
  also have "\<dots> = foldl ?blk OpenDocumentText (blocks d)"
    using v by simp
  finally show ?thesis
    by (simp add: odt_export_def save_odt_block_blocks)
qed

text \<open>
  C9. Let a window hold a document whose block \<open>i\<close> has, among its fragments, a text
  fragment \<open>fr\<close> with a non-empty link target, and let both exports succeed. Then
  \<^verbatim>\<open>save_as_docx\<close> writes the file that python-docx makes of the exported paragraphs,
  and paragraph \<open>i\<close> holds, between what the fragments before and after \<open>fr\<close> give, a
  run with the link text, colour (0, 0, 255) and underline, followed by a hyperlink
  element to the target with colour 0000FF and underline single. \<^verbatim>\<open>save_as_odt\<close>
  writes the file that odfpy makes of the exported document, and paragraph \<open>i\<close> of its
  body holds a link to the target around a span with the link text, whose style name
  begins with \<^verbatim>\<open>link_\<close>; a style of that name is among the automatic styles, and every
  style of that name has colour #0000FF, a solid underline and underline colour
  #0000FF. Storing another foreground colour on \<open>fr\<close> changes nothing in either
  export.
\<close>

theorem hyperlink_export_blue_underlined:
  assumes i: "i < length (blocks (doc a))"
    and fr: "fragments (blocks (doc a) ! i) = xs @ fr # ys"
    and ni: "\<not> isImageFormat (charFormat fr)"
    and href: "anchorHref (charFormat fr) \<noteq> []"
    and dx: "DOCX_AVAILABLE L"
    and sv: "Document_save L (docx_export L q (doc a)) = Inr data"
    and w: "writable p name"
    and ox: "ODT_AVAILABLE M"
    and sv2: "odt_save M (odt_export q p (doc a)) = Inr data2"
    and w2: "writable p name2"
  shows "fs (save_as_docx L q p name a) name = Some data
       \<and> par_elems (docx_export L q (doc a) ! i) =
           concat (map (docx_fragment_elems L q (doc a)) xs) @
           [Run (link_run fr),
            Hyperlink (anchorHref (charFormat fr)) ''0000FF'' ''single'' (frag_text fr)] @
           concat (map (docx_fragment_elems L q (doc a)) ys)
       \<and> run_text (link_run fr) = frag_text fr
       \<and> run_color (link_run fr) = Some (ColorRGB (0, 0, 255))
       \<and> run_underline (link_run fr) = Some True
       \<and> fs (save_as_odt M q p name2 a) name2 = Some data2
       \<and> (\<exists>pre post n.
             body (odt_export q p (doc a)) ! i =
               pre @ [Link (anchorHref (charFormat fr)) (''link_'', n) (frag_text fr)] @ post
           \<and> (\<exists>s\<in>set (automaticstyles (odt_export q p (doc a))).
                 name_of_style s = (''link_'', n))
           \<and> (\<forall>s\<in>set (automaticstyles (odt_export q p (doc a))).
                 name_of_style s = (''link_'', n) \<longrightarrow> blue_underlined (style_props s)))
       \<and> docx_export L q ((doc a)\<lparr>blocks := (blocks (doc a))[i := (blocks (doc a) ! i)\<lparr>fragments :=
            xs @ fr\<lparr>charFormat := (charFormat fr)\<lparr>foreground := c\<rparr>\<rparr> # ys\<rparr>]\<rparr>)
           = docx_export L q (doc a)
       \<and> odt_export q p ((doc a)\<lparr>blocks := (blocks (doc a))[i := (blocks (doc a) ! i)\<lparr>fragments :=
            xs @ fr\<lparr>charFormat := (charFormat fr)\<lparr>foreground := c\<rparr>\<rparr> # ys\<rparr>]\<rparr>)
           = odt_export q p (doc a)"
proof (intro conjI)
  show "fs (save_as_docx L q p name a) name = Some data"
    by (rule save_as_docx_writes[OF dx sv w])
  show "par_elems (docx_export L q (doc a) ! i) =
           concat (map (docx_fragment_elems L q (doc a)) xs) @
           [Run (link_run fr),
            Hyperlink (anchorHref (charFormat fr)) ''0000FF'' ''single'' (frag_text fr)] @
           concat (map (docx_fragment_elems L q (doc a)) ys)"
    by (rule docx_export_link[OF i fr ni href])
  show "run_text (link_run fr) = frag_text fr"
    by (simp add: link_run_def Let_def)
  show "run_color (link_run fr) = Some (ColorRGB (0, 0, 255))"
    by (simp add: link_run_def Let_def)
  show "run_underline (link_run fr) = Some True"
    by (simp add: link_run_def Let_def)
  show "fs (save_as_odt M q p name2 a) name2 = Some data2"
    by (rule save_as_odt_writes[OF ox sv2 w2])
  show "\<exists>pre post n.
             body (odt_export q p (doc a)) ! i =
               pre @ [Link (anchorHref (charFormat fr)) (''link_'', n) (frag_text fr)] @ post
           \<and> (\<exists>s\<in>set (automaticstyles (odt_export q p (doc a))).
                 name_of_style s = (''link_'', n))
           \<and> (\<forall>s\<in>set (automaticstyles (odt_export q p (doc a))).
                 name_of_style s = (''link_'', n) \<longrightarrow> blue_underlined (style_props s))"
  proof -
    obtain pre post n where
      b: "body (odt_export q p (doc a)) ! i =
               pre @ [Link (anchorHref (charFormat fr)) (''link_'', n) (frag_text fr)] @ post"
      and s: "\<exists>s\<in>set (automaticstyles (odt_export q p (doc a))). name_of_style s = (''link_'', n)"
      using odt_export_link[OF i fr ni href, of q p] by blast
    have "\<forall>s\<in>set (automaticstyles (odt_export q p (doc a))).
                 name_of_style s = (''link_'', n) \<longrightarrow> blue_underlined (style_props s)"
      using odt_export_link_styles[of q p "doc a"] by (simp add: name_of_style_def)
    with b s show ?thesis by blast
  qed
  show "docx_export L q ((doc a)\<lparr>blocks := (blocks (doc a))[i := (blocks (doc a) ! i)\<lparr>fragments :=
            xs @ fr\<lparr>charFormat := (charFormat fr)\<lparr>foreground := c\<rparr>\<rparr> # ys\<rparr>]\<rparr>)
           = docx_export L q (doc a)"
    by (rule docx_export_foreground[OF fr ni href])
  show "odt_export q p ((doc a)\<lparr>blocks := (blocks (doc a))[i := (blocks (doc a) ! i)\<lparr>fragments :=
            xs @ fr\<lparr>charFormat := (charFormat fr)\<lparr>foreground := c\<rparr>\<rparr> # ys\<rparr>]\<rparr>)
           = odt_export q p (doc a)"
    by (rule odt_export_foreground[OF i fr ni href])
qed

text \<open>
  C10. Under the same conditions on the document and on the word-processor export,
  paragraph \<open>i\<close> of what \<^verbatim>\<open>save_as_docx\<close> hands to python-docx and writes holds two
  elements for \<open>fr\<close>, a run with the fragment's text, blue and underlined, and, after
  it, the hyperlink element with the same text, so that the text of the paragraph is
  the text of the fragments before \<open>fr\<close>, the link text twice, and the text of the
  fragments after \<open>fr\<close>.
\<close>

theorem docx_link_text_twice:
  assumes i: "i < length (blocks (doc a))"
    and fr: "fragments (blocks (doc a) ! i) = xs @ fr # ys"
    and ni: "\<not> isImageFormat (charFormat fr)"
    and href: "anchorHref (charFormat fr) \<noteq> []"
    and dx: "DOCX_AVAILABLE L"
    and sv: "Document_save L (docx_export L q (doc a)) = Inr data"
    and w: "writable p name"
  shows "fs (save_as_docx L q p name a) name = Some data
       \<and> par_elems (docx_export L q (doc a) ! i) =
           concat (map (docx_fragment_elems L q (doc a)) xs) @
           [Run (link_run fr),
            Hyperlink (anchorHref (charFormat fr)) ''0000FF'' ''single'' (frag_text fr)] @
           concat (map (docx_fragment_elems L q (doc a)) ys)
       \<and> elem_text (Run (link_run fr)) = frag_text fr
       \<and> run_color (link_run fr) = Some (ColorRGB (0, 0, 255))
       \<and> run_underline (link_run fr) = Some True
       \<and> elem_text (Hyperlink (anchorHref (charFormat fr)) ''0000FF'' ''single'' (frag_text fr))
           = frag_text fr
       \<and> paragraph_text (docx_export L q (doc a) ! i) =
           concat (map elem_text (concat (map (docx_fragment_elems L q (doc a)) xs))) @
           frag_text fr @ frag_text fr @
           concat (map elem_text (concat (map (docx_fragment_elems L q (doc a)) ys)))"
proof (intro conjI)
  show "fs (save_as_docx L q p name a) name = Some data"
    by (rule save_as_docx_writes[OF dx sv w])
  show "par_elems (docx_export L q (doc a) ! i) =
           concat (map (docx_fragment_elems L q (doc a)) xs) @
           [Run (link_run fr),
            Hyperlink (anchorHref (charFormat fr)) ''0000FF'' ''single'' (frag_text fr)] @
           concat (map (docx_fragment_elems L q (doc a)) ys)"
    by (rule docx_export_link[OF i fr ni href])
  show "elem_text (Run (link_run fr)) = frag_text fr"
    by (simp add: link_run_def Let_def)
  show "run_color (link_run fr) = Some (ColorRGB (0, 0, 255))"
    by (simp add: link_run_def Let_def)
  show "run_underline (link_run fr) = Some True"
    by (simp add: link_run_def Let_def)
  show "elem_text (Hyperlink (anchorHref (charFormat fr)) ''0000FF'' ''single'' (frag_text fr))
           = frag_text fr"
    by simp
  show "paragraph_text (docx_export L q (doc a) ! i) =
           concat (map elem_text (concat (map (docx_fragment_elems L q (doc a)) xs))) @
           frag_text fr @ frag_text fr @
           concat (map elem_text (concat (map (docx_fragment_elems L q (doc a)) ys)))"
    unfolding paragraph_text_def docx_export_link[OF i fr ni href]
    by (simp add: link_run_def Let_def)
qed

lemma green_link_format:
  "\<not> isImageFormat (charFormat green_link)"
  "anchorHref (charFormat green_link) = ''https://example.org''"
  "frag_text green_link = ''site''"
  "foreground (charFormat green_link) = (0, 128, 0)"
  by (simp_all add: green_link_def example_format_def)

lemma see_fragment_format:
  "\<not> isImageFormat (charFormat see_fragment)"
  "\<not> isAnchor (charFormat see_fragment)"
  "anchorHref (charFormat see_fragment) = []"
  "charFormat see_fragment = example_format"
  "frag_text see_fragment = ''See ''"
  by (simp_all add: see_fragment_def example_format_def)

lemma link_app_doc:
  "doc link_app = link_doc"
  "blocks link_doc = [\<lparr>alignment = AlignLeft, fragments = [see_fragment, green_link]\<rparr>]"
  by (simp_all add: link_app_def link_doc_def)

lemma link_app_hyps:
  "0 < length (blocks (doc link_app))"
  "fragments (blocks (doc link_app) ! 0) = [see_fragment] @ green_link # []"
  "\<not> isImageFormat (charFormat green_link)"
  "anchorHref (charFormat green_link) \<noteq> []"
  "DOCX_AVAILABLE example_docx"
  "Document_save example_docx (docx_export example_docx example_qt (doc link_app)) = Inr [0x50, 0x4B]"
  "writable example_py ''links.docx''"
  "ODT_AVAILABLE example_odf"
  "odt_save example_odf (odt_export example_qt example_py (doc link_app)) = Inr [0x50, 0x4B]"
  "writable example_py ''links.odt''"
  by (simp_all add: link_app_doc green_link_format example_docx_def example_odf_def
        example_py_def example_py0_def)

lemma see_fragment_docx:
  "docx_fragment_elems L q d see_fragment =
     [Run \<lparr>run_text = ''See '', run_font_name = Some ''Arial'', run_font_size_pt = Some 12,
            run_bold = Some False, run_italic = Some False, run_underline = Some False,
            run_color = Some (ColorRGB (0, 0, 0)), run_highlight = None\<rparr>]"
  by (simp add: docx_fragment_elems_def save_docx_fragment_def Let_def add_elem_def text_run_def
        see_fragment_def example_format_def)

lemma green_link_run:
  "link_run green_link =
      \<lparr>run_text = ''site'', run_font_name = Some ''Arial'', run_font_size_pt = Some 12,
       run_bold = Some False, run_italic = Some False, run_underline = Some True,
       run_color = Some (ColorRGB (0, 0, 255)), run_highlight = None\<rparr>"
  by (simp add: link_run_def green_link_def example_format_def)

lemma green_link_props:
  "link_props (charFormat green_link) = \<lparr>fontweight = None, fontstyle = None,
     textunderlinestyle = Some ''solid'', textunderlinecolor = Some ''#0000FF'',
     fontsize_pt = Some 12, fontfamily = Some ''Arial'', color = Some ''#0000FF''\<rparr>"
  by (simp add: link_props_def green_link_def example_format_def TextProperties_def)

lemma example_span_props:
  "span_props example_format = \<lparr>fontweight = None, fontstyle = None, textunderlinestyle = None,
               textunderlinecolor = None, fontsize_pt = Some 12, fontfamily = Some ''Arial'',
               color = Some ''#000000''\<rparr>"
  by (simp add: span_props_def example_format_def TextProperties_def color_hex_def hex2_def Let_def)

lemma example_object_id: "object_id example_py i j = 1000 + 10 * i + j"
  by (simp add: example_py_def example_py0_def)

lemma link_doc_odt:
  "odt_export example_qt example_py link_doc =
     \<lparr>automaticstyles =
        [\<lparr>style_prefix = ''style_'', style_id = 1000,
          style_props = \<lparr>fontweight = None, fontstyle = None, textunderlinestyle = None,
             textunderlinecolor = None, fontsize_pt = Some 12, fontfamily = Some ''Arial'',
             color = Some ''#000000''\<rparr>\<rparr>,
         \<lparr>style_prefix = ''link_'', style_id = 1001,
          style_props = \<lparr>fontweight = None, fontstyle = None,
             textunderlinestyle = Some ''solid'', textunderlinecolor = Some ''#0000FF'',
             fontsize_pt = Some 12, fontfamily = Some ''Arial'', color = Some ''#0000FF''\<rparr>\<rparr>],
      pictures = [],
      body = [[Span (''style_'', 1000) ''See '',
               Link ''https://example.org'' (''link_'', 1001) ''site'']]\<rparr>"
  by (simp add: odt_export_def link_app_doc save_odt_block_def Let_def
        plain_fragment_odt[OF see_fragment_format(1,2,3)]
        link_fragment_odt[OF green_link_format(1)]
        see_fragment_format green_link_format green_link_props example_span_props
        example_object_id OpenDocumentText_def)

theorem docx_link_text_twice_witness:
  "0 < length (blocks (doc link_app))
   \<and> fragments (blocks (doc link_app) ! 0) = [see_fragment] @ green_link # []
   \<and> \<not> isImageFormat (charFormat green_link) \<and> anchorHref (charFormat green_link) \<noteq> []
   \<and> DOCX_AVAILABLE example_docx
   \<and> Document_save example_docx (docx_export example_docx example_qt (doc link_app))
       = Inr [0x50, 0x4B]
   \<and> writable example_py ''links.docx''
   \<and> fs (save_as_docx example_docx example_qt example_py ''links.docx'' link_app) ''links.docx''
       = Some [0x50, 0x4B]
   \<and> par_elems (docx_export example_docx example_qt link_doc ! 0) =
       [Run \<lparr>run_text = ''See '', run_font_name = Some ''Arial'', run_font_size_pt = Some 12,
              run_bold = Some False, run_italic = Some False, run_underline = Some False,
              run_color = Some (ColorRGB (0, 0, 0)), run_highlight = None\<rparr>,
        Run \<lparr>run_text = ''site'', run_font_name = Some ''Arial'', run_font_size_pt = Some 12,
              run_bold = Some False, run_italic = Some False, run_underline = Some True,
              run_color = Some (ColorRGB (0, 0, 255)), run_highlight = None\<rparr>,
        Hyperlink ''https://example.org'' ''0000FF'' ''single'' ''site'']
   \<and> paragraph_text (docx_export example_docx example_qt link_doc ! 0) = ''See sitesite''"
proof -
  note inst = docx_link_text_twice [OF link_app_hyps(1-7), unfolded link_app_doc(1)]
  have r1: "fs (save_as_docx example_docx example_qt example_py ''links.docx'' link_app) ''links.docx''
       = Some [0x50, 0x4B]"
    using inst by blast
  have r2: "par_elems (docx_export example_docx example_qt link_doc ! 0) =
       [Run \<lparr>run_text = ''See '', run_font_name = Some ''Arial'', run_font_size_pt = Some 12,
              run_bold = Some False, run_italic = Some False, run_underline = Some False,
              run_color = Some (ColorRGB (0, 0, 0)), run_highlight = None\<rparr>,
        Run \<lparr>run_text = ''site'', run_font_name = Some ''Arial'', run_font_size_pt = Some 12,
              run_bold = Some False, run_italic = Some False, run_underline = Some True,
              run_color = Some (ColorRGB (0, 0, 255)), run_highlight = None\<rparr>,
        Hyperlink ''https://example.org'' ''0000FF'' ''single'' ''site'']"
    using inst by (simp add: see_fragment_docx green_link_run green_link_format)
  have r3: "paragraph_text (docx_export example_docx example_qt link_doc ! 0) = ''See sitesite''"
    using inst by (simp add: see_fragment_docx green_link_format)
  show ?thesis using link_app_hyps(1-7) r1 r2 r3 by blast
qed

theorem hyperlink_export_blue_underlined_witness:
  "0 < length (blocks (doc link_app))
   \<and> fragments (blocks (doc link_app) ! 0) = [see_fragment] @ green_link # []
   \<and> \<not> isImageFormat (charFormat green_link) \<and> anchorHref (charFormat green_link) \<noteq> []
   \<and> foreground (charFormat green_link) = (0, 128, 0)
   \<and> DOCX_AVAILABLE example_docx
   \<and> Document_save example_docx (docx_export example_docx example_qt (doc link_app))
       = Inr [0x50, 0x4B]
   \<and> writable example_py ''links.docx''
   \<and> ODT_AVAILABLE example_odf
   \<and> odt_save example_odf (odt_export example_qt example_py (doc link_app)) = Inr [0x50, 0x4B]
   \<and> writable example_py ''links.odt''
   \<and> fs (save_as_docx example_docx example_qt example_py ''links.docx'' link_app) ''links.docx''
       = Some [0x50, 0x4B]
   \<and> par_elems (docx_export example_docx example_qt link_doc ! 0) =
       [Run \<lparr>run_text = ''See '', run_font_name = Some ''Arial'', run_font_size_pt = Some 12,
              run_bold = Some False, run_italic = Some False, run_underline = Some False,
              run_color = Some (ColorRGB (0, 0, 0)), run_highlight = None\<rparr>,
        Run \<lparr>run_text = ''site'', run_font_name = Some ''Arial'', run_font_size_pt = Some 12,
              run_bold = Some False, run_italic = Some False, run_underline = Some True,
              run_color = Some (ColorRGB (0, 0, 255)), run_highlight = None\<rparr>,
        Hyperlink ''https://example.org'' ''0000FF'' ''single'' ''site'']
   \<and> fs (save_as_odt example_odf example_qt example_py ''links.odt'' link_app) ''links.odt''
       = Some [0x50, 0x4B]
   \<and> odt_export example_qt example_py link_doc =
     \<lparr>automaticstyles =
        [\<lparr>style_prefix = ''style_'', style_id = 1000,
          style_props = \<lparr>fontweight = None, fontstyle = None, textunderlinestyle = None,
             textunderlinecolor = None, fontsize_pt = Some 12, fontfamily = Some ''Arial'',
             color = Some ''#000000''\<rparr>\<rparr>,
         \<lparr>style_prefix = ''link_'', style_id = 1001,
          style_props = \<lparr>fontweight = None, fontstyle = None,
             textunderlinestyle = Some ''solid'', textunderlinecolor = Some ''#0000FF'',
             fontsize_pt = Some 12, fontfamily = Some ''Arial'', color = Some ''#0000FF''\<rparr>\<rparr>],
      pictures = [],
      body = [[Span (''style_'', 1000) ''See '',
               Link ''https://example.org'' (''link_'', 1001) ''site'']]\<rparr>"
proof -
  note inst = hyperlink_export_blue_underlined [OF link_app_hyps, unfolded link_app_doc(1)]
  have r1: "fs (save_as_docx example_docx example_qt example_py ''links.docx'' link_app) ''links.docx''
       = Some [0x50, 0x4B]"
    using inst by blast
  have r2: "par_elems (docx_export example_docx example_qt link_doc ! 0) =
       [Run \<lparr>run_text = ''See '', run_font_name = Some ''Arial'', run_font_size_pt = Some 12,
              run_bold = Some False, run_italic = Some False, run_underline = Some False,
              run_color = Some (ColorRGB (0, 0, 0)), run_highlight = None\<rparr>,
        Run \<lparr>run_text = ''site'', run_font_name = Some ''Arial'', run_font_size_pt = Some 12,
              run_bold = Some False, run_italic = Some False, run_underline = Some True,
              run_color = Some (ColorRGB (0, 0, 255)), run_highlight = None\<rparr>,
        Hyperlink ''https://example.org'' ''0000FF'' ''single'' ''site'']"
    using inst by (simp add: see_fragment_docx green_link_run green_link_format)
  have r3: "fs (save_as_odt example_odf example_qt example_py ''links.odt'' link_app) ''links.odt''
       = Some [0x50, 0x4B]"
    using inst by blast
  show ?thesis
    using link_app_hyps r1 r2 r3 green_link_format(4) link_doc_odt by blast
qed

lemma example_doc_blocks:
  "blocks example_doc = [\<lparr>alignment = AlignLeft, fragments = [hello_fragment, wide_image]\<rparr>]"
  by (simp add: example_doc_def hello_fragment_def wide_image_def)

lemma wide_image_format:
  "isImageFormat (charFormat wide_image)"
  "image_name (charFormat wide_image) = ''logo.png''"
  "image_width (charFormat wide_image) = 1000"
  "image_height (charFormat wide_image) = 500"
  by (simp_all add: wide_image_def)

lemma hello_fragment_format:
  "\<not> isImageFormat (charFormat hello_fragment)"
  "\<not> isAnchor (charFormat hello_fragment)"
  "anchorHref (charFormat hello_fragment) = []"
  "charFormat hello_fragment = example_format"
  "frag_text hello_fragment = ''Hello''"
  by (simp_all add: hello_fragment_def example_format_def)

lemma example_logo:
  "resource example_qt example_doc ''logo.png'' = Some (Image [7, 7])"
  by (simp add: resource_def example_doc_def)

lemma hello_fragment_docx:
  "docx_fragment_elems L q d hello_fragment =
     [Run \<lparr>run_text = ''Hello'', run_font_name = Some ''Arial'', run_font_size_pt = Some 12,
            run_bold = Some False, run_italic = Some False, run_underline = Some False,
            run_color = Some (ColorRGB (0, 0, 0)), run_highlight = None\<rparr>]"
  by (simp add: docx_fragment_elems_def save_docx_fragment_def Let_def add_elem_def text_run_def
        hello_fragment_def example_format_def)

text \<open>
  C8. An image fragment of stored width 1000 and height 500 is exported by
  \<^verbatim>\<open>save_as_odt\<close> in a frame of width 1000/96 = 125/12 inches, more than 6: the
  office-suite exporter has no clamp. \<^verbatim>\<open>save_as_docx\<close> on the same fragment gives a
  picture 6 inches wide and 3 high. So it is in the exports of the whole example
  document: the body of the office-suite document holds the span of "Hello", with its
  style among the automatic styles, and the frame of 125/12 by 125/24 inches; the
  paragraph of the word-processor document holds the run of "Hello" and the picture of
  6 by 3 inches.
\<close>

theorem odt_frame_not_clamped:
  "odt_p (save_odt_fragment example_qt example_py example_doc OpenDocumentText wide_image) =
     [Frame (125 / 12) (125 / 24) ''as-char'' 1]
   \<and> par_elems (save_docx_fragment example_docx example_qt example_doc
        \<lparr>par_alignment = Some WD_LEFT, par_elems = []\<rparr> wide_image) = [Picture [7, 7] 6 3]
   \<and> body (odt_export example_qt example_py example_doc) =
     [[Span (''style_'', 1000) ''Hello'', Frame (125 / 12) (125 / 24) ''as-char'' 1]]
   \<and> automaticstyles (odt_export example_qt example_py example_doc) =
     [\<lparr>style_prefix = ''style_'', style_id = 1000,
       style_props = \<lparr>fontweight = None, fontstyle = None, textunderlinestyle = None,
          textunderlinecolor = None, fontsize_pt = Some 12, fontfamily = Some ''Arial'',
          color = Some ''#000000''\<rparr>\<rparr>]
   \<and> pictures (odt_export example_qt example_py example_doc) = [(1, [7, 7])]
   \<and> docx_export example_docx example_qt example_doc =
     [\<lparr>par_alignment = Some WD_LEFT, par_elems =
        [Run \<lparr>run_text = ''Hello'', run_font_name = Some ''Arial'', run_font_size_pt = Some 12,
            run_bold = Some False, run_italic = Some False, run_underline = Some False,
            run_color = Some (ColorRGB (0, 0, 0)), run_highlight = None\<rparr>,
         Picture [7, 7] 6 3]\<rparr>]"
proof -
  have img: "resource example_qt example_doc (image_name (charFormat wide_image)) = Some (Image [7, 7])"
    by (simp add: wide_image_format example_logo)
  have ok: "add_picture_ok example_docx [7, 7]"
    by (simp add: example_docx_def)
  have r1: "odt_p (save_odt_fragment example_qt example_py example_doc OpenDocumentText wide_image) =
     [Frame (125 / 12) (125 / 24) ''as-char'' 1]"
    by (simp add: image_fragment_odt[OF wide_image_format(1) img] wide_image_format
          OpenDocumentText_def)
  have r2: "par_elems (save_docx_fragment example_docx example_qt example_doc
        \<lparr>par_alignment = Some WD_LEFT, par_elems = []\<rparr> wide_image) = [Picture [7, 7] 6 3]"
    by (simp add: image_fragment_docx[OF wide_image_format(1) img ok] wide_image_format)
  have e: "odt_export example_qt example_py example_doc =
     \<lparr>automaticstyles =
        [\<lparr>style_prefix = ''style_'', style_id = 1000,
          style_props = \<lparr>fontweight = None, fontstyle = None, textunderlinestyle = None,
             textunderlinecolor = None, fontsize_pt = Some 12, fontfamily = Some ''Arial'',
             color = Some ''#000000''\<rparr>\<rparr>],
      pictures = [(1, [7, 7])],
      body = [[Span (''style_'', 1000) ''Hello'', Frame (125 / 12) (125 / 24) ''as-char'' 1]]\<rparr>"
    by (simp add: odt_export_def example_doc_blocks save_odt_block_def Let_def
          plain_fragment_odt[OF hello_fragment_format(1,2,3)]
          image_fragment_odt[OF wide_image_format(1) img]
          hello_fragment_format wide_image_format example_span_props example_object_id
          OpenDocumentText_def)
  have r3: "body (odt_export example_qt example_py example_doc) =
     [[Span (''style_'', 1000) ''Hello'', Frame (125 / 12) (125 / 24) ''as-char'' 1]]"
    by (simp add: e)
  have r4: "automaticstyles (odt_export example_qt example_py example_doc) =
     [\<lparr>style_prefix = ''style_'', style_id = 1000,
       style_props = \<lparr>fontweight = None, fontstyle = None, textunderlinestyle = None,
          textunderlinecolor = None, fontsize_pt = Some 12, fontfamily = Some ''Arial'',
          color = Some ''#000000''\<rparr>\<rparr>]"
    by (simp add: e)
  have r5: "pictures (odt_export example_qt example_py example_doc) = [(1, [7, 7])]"
    by (simp add: e)
  have we: "docx_fragment_elems example_docx example_qt example_doc wide_image = [Picture [7, 7] 6 3]"
    by (simp add: docx_fragment_elems_def image_fragment_docx[OF wide_image_format(1) img ok]
          wide_image_format)
  have r6: "docx_export example_docx example_qt example_doc =
     [\<lparr>par_alignment = Some WD_LEFT, par_elems =
        [Run \<lparr>run_text = ''Hello'', run_font_name = Some ''Arial'', run_font_size_pt = Some 12,
            run_bold = Some False, run_italic = Some False, run_underline = Some False,
            run_color = Some (ColorRGB (0, 0, 0)), run_highlight = None\<rparr>,
         Picture [7, 7] 6 3]\<rparr>]"
    by (simp add: docx_export_def example_doc_blocks save_docx_block_elems hello_fragment_docx we
          docx_alignment_def)
  show ?thesis using r1 r2 r3 r4 r5 r6 by blast
qed

section \<open>Properties of the loaders\<close>

















subsection \<open>The markup file\<close>

text \<open>
  What the repository adds to Qt's HTML codec is a UTF-8 file: when the HTML string
  survives encoding and decoding, opening the file that \<^verbatim>\<open>save_as_html\<close> wrote sets the
  document to \<^verbatim>\<open>setHtml\<close> of the \<^verbatim>\<open>toHtml\<close> string. Whether that is the document that was
  saved is a property of Qt's \<^verbatim>\<open>toHtml\<close> and \<^verbatim>\<open>setHtml\<close>, which are parameters here.
\<close>

lemma markup_pass_through:
  assumes w: "writable p filename"
    and enc: "utf8_encode p (toHtml q (doc a)) = Inr data"
    and dec: "utf8_decode p data = Inr (toHtml q (doc a))"
  shows "open_html q p filename (save_as_html q p filename a) =
     (None, (emit [OpenWrite filename, OpenRead filename] a)
        \<lparr>fs := (fs a)(filename \<mapsto> data), status := HtmlSaved filename,
         doc := setHtml q (doc a) (toHtml q (doc a))\<rparr>)"
  using assms by (simp add: open_html_def save_as_html_def Let_def emit_def)

end
